theory Spec2Isabelle
  imports Main "HOL-Library.Sublist" "HOL-Library.List_Lexorder"
begin

section \<open>Python text and values\<close>

text \<open>
  A Python \<^verbatim>\<open>str\<close> is a sequence of Unicode code points: \<^verbatim>\<open>len\<close> counts code points
  and comparison is lexicographic on them. The model is a list of natural numbers;
  \<open>asc\<close> embeds an ASCII literal, and the Korean literals of the sources are written
  as their code points.
\<close>

type_synonym ustring = "nat list"

definition asc :: "string \<Rightarrow> ustring" where
  "asc s = map of_char s"

text \<open>\<^verbatim>\<open>str.isspace\<close>: the code points \<^verbatim>\<open>str.strip()\<close> removes.\<close>

definition is_space :: "nat \<Rightarrow> bool" where
  "is_space c \<longleftrightarrow>
     (9 \<le> c \<and> c \<le> 13) \<or> (28 \<le> c \<and> c \<le> 32) \<or> c = 133 \<or> c = 160 \<or> c = 5760 \<or>
     (8192 \<le> c \<and> c \<le> 8202) \<or> c = 8232 \<or> c = 8233 \<or> c = 8239 \<or> c = 8287 \<or> c = 12288"

definition py_strip :: "ustring \<Rightarrow> ustring" where
  "py_strip s = rev (dropWhile is_space (rev (dropWhile is_space s)))"

text \<open>\<^verbatim>\<open>x in s\<close> on strings: \<open>x\<close> occurs in \<open>s\<close> as a contiguous run.\<close>

fun py_in :: "ustring \<Rightarrow> ustring \<Rightarrow> bool" where
  "py_in x [] = (x = [])"
| "py_in x (c # cs) = (prefix x (c # cs) \<or> py_in x cs)"

text \<open>\<^verbatim>\<open>sep.join(xs)\<close>.\<close>

fun py_join :: "ustring \<Rightarrow> ustring list \<Rightarrow> ustring" where
  "py_join sep [] = []"
| "py_join sep [x] = x"
| "py_join sep (x # y # ys) = x @ sep @ py_join sep (y # ys)"

text \<open>
  The values of dynamically typed data (what \<^verbatim>\<open>json.loads\<close> returns, what a dict of
  the pipeline holds). Numbers are integers here; a dict is an association list read
  with \<open>map_of\<close>.
\<close>

datatype json =
    JNull
  | JBool bool
  | JNum int
  | JStr ustring
  | JList "json list"
  | JDict "(ustring \<times> json) list"

text \<open>Python truthiness, as \<^verbatim>\<open>x or default\<close> and \<^verbatim>\<open>if not x\<close> read it.\<close>

fun truthy :: "json \<Rightarrow> bool" where
  "truthy JNull = False"
| "truthy (JBool b) = b"
| "truthy (JNum n) = (n \<noteq> 0)"
| "truthy (JStr s) = (s \<noteq> [])"
| "truthy (JList xs) = (xs \<noteq> [])"
| "truthy (JDict kvs) = (kvs \<noteq> [])"

text \<open>
  \<^verbatim>\<open>str(v)\<close>: the identity on a \<^verbatim>\<open>str\<close>, and \<^verbatim>\<open>repr(v)\<close> on every other value; the
  builtin \<^verbatim>\<open>repr\<close> is a parameter.
\<close>

definition py_str :: "(json \<Rightarrow> ustring) \<Rightarrow> json \<Rightarrow> ustring" where
  "py_str repr v = (case v of JStr s \<Rightarrow> s | _ \<Rightarrow> repr v)"

datatype error =
    AttributeError
  | TypeError
  | ValueError
  | RuntimeError ustring
  | LLMError ustring

section \<open>Slot placeholders: the pattern \<^verbatim>\<open>\{([a-zA-Z0-9_]+)\}\<close>\<close>

definition is_slot_char :: "nat \<Rightarrow> bool" where
  "is_slot_char c \<longleftrightarrow>
     (97 \<le> c \<and> c \<le> 122) \<or> (65 \<le> c \<and> c \<le> 90) \<or> (48 \<le> c \<and> c \<le> 57) \<or> c = 95"

definition lbrace :: nat where
  "lbrace = 123"

definition rbrace :: nat where
  "rbrace = 125"

text \<open>\<^verbatim>\<open>f"{{{k}}}"\<close>: the placeholder text of a slot name.\<close>

definition placeholder :: "ustring \<Rightarrow> ustring" where
  "placeholder k = lbrace # k @ [rbrace]"

text \<open>A slot name the pattern's group can match: one or more of \<^verbatim>\<open>[a-zA-Z0-9_]\<close>.\<close>

definition slot_name :: "ustring \<Rightarrow> bool" where
  "slot_name k \<longleftrightarrow> k \<noteq> [] \<and> list_all is_slot_char k"

text \<open>
  A match of the pattern anchored at the head of the text: the opening brace, the
  longest run of slot characters (the greedy \<^verbatim>\<open>+\<close>; giving characters back never helps,
  since the next character would be a slot character, not the closing brace), the
  closing brace. The result is the group and the text after the match.
\<close>

definition slot_match :: "ustring \<Rightarrow> (ustring \<times> ustring) option" where
  "slot_match s =
     (case s of
        [] \<Rightarrow> None
      | c # cs \<Rightarrow>
          if c = lbrace then
            (case dropWhile is_slot_char cs of
               [] \<Rightarrow> None
             | d # ds \<Rightarrow>
                 if takeWhile is_slot_char cs \<noteq> [] \<and> d = rbrace
                 then Some (takeWhile is_slot_char cs, ds)
                 else None)
          else None)"

text \<open>
  \<^verbatim>\<open>re.findall\<close>: scan from the left; after a match go on behind it, otherwise one
  character further.
\<close>

function findall :: "ustring \<Rightarrow> ustring list" where
  "findall [] = []"
| "findall (c # cs) =
     (case slot_match (c # cs) of
        Some (name, rest) \<Rightarrow> name # findall rest
      | None \<Rightarrow> findall cs)"
  by pat_completeness auto
termination
proof (relation "measure length")
  fix c cs m name rest
  assume "slot_match (c # cs) = Some m" "(name, rest) = m"
  then have "dropWhile is_slot_char cs = rbrace # rest"
    by (auto simp: slot_match_def split: if_splits list.splits)
  then have "length rest < length (dropWhile is_slot_char cs)"
    by simp
  also have "\<dots> \<le> length cs"
    by (rule length_dropWhile_le)
  finally show "(rest, c # cs) \<in> measure length"
    by simp
qed simp_all

text \<open>\<^verbatim>\<open>_slot_placeholders_in_text\<close> (template agent): \<^verbatim>\<open>set(re.findall(...))\<close>.\<close>

definition slot_placeholders_in_text :: "ustring \<Rightarrow> ustring set" where
  "slot_placeholders_in_text text = set (findall text)"

text \<open>\<^verbatim>\<open>_validate_candidate_body\<close>: the required slots the body lacks, in schema order.\<close>

definition validate_candidate_body :: "ustring \<Rightarrow> ustring list \<Rightarrow> ustring list" where
  "validate_candidate_body body required_slots =
     filter (\<lambda>s. s \<notin> slot_placeholders_in_text body) required_slots"

text \<open>\<^verbatim>\<open>_extract_slots\<close> (compliance): \<^verbatim>\<open>sorted(set(SLOT_PATTERN.findall(text or "")))\<close>.\<close>

definition extract_slots :: "ustring \<Rightarrow> ustring list" where
  "extract_slots text = sort (remdups (findall text))"

text \<open>
  \<^verbatim>\<open>_render\<close> (execution agent): \<^verbatim>\<open>SLOT_PATTERN.sub(repl, text or "")\<close> with
  \<^verbatim>\<open>repl = str(slot_values.get(k, f"{{{k}}}"))\<close>. Text outside the matches is copied.
\<close>

function render :: "(json \<Rightarrow> ustring) \<Rightarrow> ustring \<Rightarrow> (ustring \<rightharpoonup> json) \<Rightarrow> ustring" where
  "render repr [] slot_values = []"
| "render repr (c # cs) slot_values =
     (case slot_match (c # cs) of
        Some (k, rest) \<Rightarrow>
          (case slot_values k of
             Some v \<Rightarrow> py_str repr v
           | None \<Rightarrow> placeholder k) @ render repr rest slot_values
      | None \<Rightarrow> c # render repr cs slot_values)"
  by pat_completeness auto
termination
proof (relation "measure (\<lambda>(repr, s, slot_values). length s)")
  fix repr :: "json \<Rightarrow> ustring" and slot_values :: "ustring \<rightharpoonup> json"
  fix c cs m k rest
  assume "slot_match (c # cs) = Some m" "(k, rest) = m"
  then have "dropWhile is_slot_char cs = rbrace # rest"
    by (auto simp: slot_match_def split: if_splits list.splits)
  then have "length rest < length (dropWhile is_slot_char cs)"
    by simp
  also have "\<dots> \<le> length cs"
    by (rule length_dropWhile_le)
  finally show "((repr, rest, slot_values), (repr, c # cs, slot_values))
      \<in> measure (\<lambda>(repr, s, slot_values). length s)"
    by simp
qed simp_all

section \<open>Candidates and the compliance validator\<close>

record slot_schema =
  required :: "ustring list option"
  optional :: "ustring list option"

text \<open>
  The notes of a candidate (a dict of the template agent). \<open>provenance\<close> is the key set
  to \<^verbatim>\<open>True\<close>: \<^verbatim>\<open>"llm"\<close> or \<^verbatim>\<open>"fallback"\<close>.
\<close>

datatype provenance = Llm | Fallback

record 'n note_dict =
  campaign_goal :: ustring
  campaign_text_hint :: ustring
  rag_evidence_hint :: ustring
  brand_tone_id :: ustring
  brand_tone_guide_snippet :: ustring
  principle :: ustring
  provenance :: provenance
  campaign_text_normalized :: 'n
  llm_error :: "ustring option"
  missing_slots_fixed :: "ustring list option"

text \<open>
  A candidate (a dict). A field is \<open>None\<close> when the dict has no such key, as for the
  two built-in candidates of the orchestrator and for a template a caller selects.
\<close>

record 'n candidate =
  template_id :: "ustring option"
  title :: "ustring option"
  slot_schema :: "slot_schema option"
  body_with_slots :: "ustring option"
  cand_channel :: "ustring option"
  cand_tone :: "ustring option"
  cand_notes :: "'n note_dict option"
  default_slot_values :: "(ustring \<times> json) list option"

datatype status = PASS | WARN | FAIL

text \<open>
  The reasons of a compliance result. The source appends texts; the model keeps what
  each text says: \<open>MissingRequired missing\<close> is \<^verbatim>\<open>f"...: {missing}"\<close> (the label for
  "required slots missing", then the list), \<open>Exaggeration\<close> the text for "possible
  exaggerated or absolute expression", \<open>TooLong\<close> the text for "the copy may be long".
\<close>

datatype reason = MissingRequired "ustring list" | Exaggeration | TooLong

record compliance_result =
  res_template_id :: "ustring option"
  res_status :: status
  res_reasons :: "reason list"
  found_slots :: "ustring list option"

definition txt_100_effect :: ustring where
  "txt_100_effect = asc ''100% '' @ [54952, 44284]"

definition txt_complete_cure :: ustring where
  "txt_complete_cure = [50756, 52824]"

definition txt_unconditionally :: ustring where
  "txt_unconditionally = [47924, 51312, 44148]"

text \<open>The phrase list of \<^verbatim>\<open>validate_candidates\<close> (compilance.py).\<close>

definition banned_phrases :: "ustring list" where
  "banned_phrases = [txt_100_effect, txt_complete_cure, txt_unconditionally]"

text \<open>
  The three rules of \<^verbatim>\<open>validate_candidates\<close>, each an \<^verbatim>\<open>if\<close> block that updates the
  local variables \<^verbatim>\<open>status\<close> and \<^verbatim>\<open>reasons\<close>.
\<close>

definition rule_required :: "ustring list \<Rightarrow> status \<times> reason list \<Rightarrow> status \<times> reason list" where
  "rule_required missing sr =
     (if missing \<noteq> [] then (FAIL, snd sr @ [MissingRequired missing]) else sr)"

text \<open>\<^verbatim>\<open>any(x in body for x in [...])\<close>.\<close>

definition banned_hit :: "ustring \<Rightarrow> bool" where
  "banned_hit body = list_ex (\<lambda>x. py_in x body) banned_phrases"

definition rule_banned :: "ustring \<Rightarrow> status \<times> reason list \<Rightarrow> status \<times> reason list" where
  "rule_banned body sr =
     (if banned_hit body then (FAIL, snd sr @ [Exaggeration]) else sr)"

definition rule_length :: "ustring \<Rightarrow> status \<times> reason list \<Rightarrow> status \<times> reason list" where
  "rule_length body sr =
     (if length body > 220
      then ((if fst sr \<noteq> FAIL then WARN else fst sr), snd sr @ [TooLong])
      else sr)"

text \<open>The locals \<^verbatim>\<open>body\<close>, \<^verbatim>\<open>required\<close>, \<^verbatim>\<open>found\<close> and \<^verbatim>\<open>missing\<close> of the loop body.\<close>

definition cand_body :: "('n, 'a) candidate_scheme \<Rightarrow> ustring" where
  "cand_body c = (case body_with_slots c of None \<Rightarrow> [] | Some b \<Rightarrow> b)"

definition cand_required :: "('n, 'a) candidate_scheme \<Rightarrow> ustring list" where
  "cand_required c =
     (case slot_schema c of
        None \<Rightarrow> []
      | Some schema \<Rightarrow> (case required schema of None \<Rightarrow> [] | Some r \<Rightarrow> r))"

definition cand_missing :: "('n, 'a) candidate_scheme \<Rightarrow> ustring list" where
  "cand_missing c =
     filter (\<lambda>s. s \<notin> set (extract_slots (cand_body c))) (cand_required c)"

definition validate_one :: "('n, 'a) candidate_scheme \<Rightarrow> compliance_result" where
  "validate_one c =
     (let tid = (case template_id c of None \<Rightarrow> [] | Some t \<Rightarrow> t);
          body = cand_body c;
          found = extract_slots body;
          missing = cand_missing c;
          sr = rule_length body (rule_banned body (rule_required missing (PASS, [])))
      in \<lparr> res_template_id = Some tid, res_status = fst sr, res_reasons = snd sr,
           found_slots = Some found \<rparr>)"

definition validate_candidates :: "('n, 'a) candidate_scheme list \<Rightarrow> compliance_result list" where
  "validate_candidates candidates = map validate_one candidates"

text \<open>
  The scenario of the specification: a candidate for channel PUSH whose body lacks the
  required placeholder \<open>{cta}\<close>.
\<close>

definition push_candidate_without_cta :: "unit candidate" where
  "push_candidate_without_cta =
     \<lparr> template_id = Some (asc ''T001''), title = Some (asc ''demo''),
       slot_schema = Some \<lparr> required = Some [asc ''customer_name'', asc ''product_name'',
         asc ''offer'', asc ''cta''], optional = Some [] \<rparr>,
       body_with_slots = Some (asc ''Hi {customer_name}: {product_name}, {offer}''),
       cand_channel = Some (asc ''PUSH''), cand_tone = Some (asc ''amoremall''),
       cand_notes = None, default_slot_values = None \<rparr>"

text \<open>
  Two more candidates: one for channel SMS whose body lacks the required placeholders
  \<open>{cta}\<close> and \<open>{unsubscribe}\<close>, and one whose body has every required placeholder and
  starts with the second phrase of the list (code points 50756, 52824).
\<close>

definition sms_candidate_without_cta_unsubscribe :: "unit candidate" where
  "sms_candidate_without_cta_unsubscribe =
     \<lparr> template_id = Some (asc ''T002''), title = Some (asc ''demo''),
       slot_schema = Some \<lparr> required = Some [asc ''customer_name'', asc ''product_name'',
         asc ''offer'', asc ''cta'', asc ''unsubscribe''], optional = Some [] \<rparr>,
       body_with_slots = Some (asc ''Hi {customer_name}: {product_name}, {offer}''),
       cand_channel = Some (asc ''SMS''), cand_tone = Some (asc ''amoremall''),
       cand_notes = None, default_slot_values = None \<rparr>"

definition candidate_with_cure_claim :: "unit candidate" where
  "candidate_with_cure_claim =
     \<lparr> template_id = Some (asc ''T003''), title = Some (asc ''demo''),
       slot_schema = Some \<lparr> required = Some [asc ''customer_name'', asc ''product_name'',
         asc ''offer'', asc ''cta''], optional = Some [] \<rparr>,
       body_with_slots =
         Some ([50756, 52824] @ asc '': {customer_name} {product_name} {offer} {cta}''),
       cand_channel = Some (asc ''PUSH''), cand_tone = Some (asc ''amoremall''),
       cand_notes = None, default_slot_values = None \<rparr>"

section \<open>The target-query builder\<close>

text \<open>\<^verbatim>\<open>s.replace(old, "")\<close>: the occurrences of \<open>old\<close> are cut out from the left.\<close>

function remove_all :: "ustring \<Rightarrow> ustring \<Rightarrow> ustring" where
  "remove_all old [] = []"
| "remove_all old (c # cs) =
     (if old \<noteq> [] \<and> prefix old (c # cs)
      then remove_all old (drop (length old) (c # cs))
      else c # remove_all old cs)"
  by pat_completeness auto
termination
  by (relation "measure (\<lambda>(old, s). length s)") (auto simp: neq_Nil_conv)

definition is_digit :: "nat \<Rightarrow> bool" where
  "is_digit c \<longleftrightarrow> 48 \<le> c \<and> c \<le> 57"

definition digits_value :: "ustring \<Rightarrow> nat" where
  "digits_value ds = foldl (\<lambda>a c. 10 * a + (c - 48)) 0 ds"

text \<open>
  \<^verbatim>\<open>int(s)\<close> on a string: surrounding whitespace, an optional sign, then decimal digits;
  anything else raises \<^verbatim>\<open>ValueError\<close>. (Python also accepts single underscores between
  digits and the decimal digits of other scripts; the model reads ASCII digits only.)
\<close>

definition py_int :: "ustring \<Rightarrow> error + int" where
  "py_int s =
     (let t = py_strip s;
          neg = (t \<noteq> [] \<and> hd t = 45);
          d = (if t \<noteq> [] \<and> (hd t = 45 \<or> hd t = 43) then tl t else t)
      in if d \<noteq> [] \<and> list_all is_digit d
         then Inr (if neg then - int (digits_value d) else int (digits_value d))
         else Inl ValueError)"

text \<open>\<^verbatim>\<open>str(n)\<close> of a natural number, as the f-strings of the sources print an index.\<close>

function dec :: "nat \<Rightarrow> ustring" where
  "dec n = (if n < 10 then [48 + n] else dec (n div 10) @ [48 + n mod 10])"
  by pat_completeness auto
termination
  by (relation "measure id") auto

declare dec.simps [simp del]

definition txt_dae :: ustring where
  "txt_dae = [45824]"

definition txt_dae_plus :: ustring where
  "txt_dae_plus = [45824] @ asc ''+''"

text \<open>
  \<^verbatim>\<open>_age_group_to_birth_year_range\<close> (services/targeting.py); \<open>this_year\<close> is
  \<^verbatim>\<open>date.today().year\<close>. A bound is \<open>None\<close> when the interval is open on that side.
\<close>

definition age_group_to_birth_year_range ::
    "int \<Rightarrow> ustring \<Rightarrow> error + (int option \<times> int option)" where
  "age_group_to_birth_year_range this_year age_group =
     (if suffix txt_dae_plus age_group then
        (case py_int (remove_all txt_dae_plus age_group) of
           Inl e \<Rightarrow> Inl e
         | Inr base \<Rightarrow> (let max_birth = this_year - base in Inr (None, Some max_birth)))
      else
        (case py_int (remove_all txt_dae age_group) of
           Inl e \<Rightarrow> Inl e
         | Inr base \<Rightarrow>
             (let min_age = base; max_age = base + 9;
                  min_birth = this_year - max_age;
                  max_birth = this_year - min_age
              in Inr (Some min_birth, Some max_birth))))"

definition txt_band_10 :: ustring where
  "txt_band_10 = asc ''10'' @ [45824]"

definition txt_band_20 :: ustring where
  "txt_band_20 = asc ''20'' @ [45824]"

definition txt_band_30 :: ustring where
  "txt_band_30 = asc ''30'' @ [45824]"

definition txt_band_40 :: ustring where
  "txt_band_40 = asc ''40'' @ [45824]"

definition txt_band_50 :: ustring where
  "txt_band_50 = asc ''50'' @ [45824]"

definition txt_band_50_plus :: ustring where
  "txt_band_50_plus = asc ''50'' @ [45824] @ asc ''+''"

text \<open>
  The age-band loop of \<^verbatim>\<open>Repo.preview_target_users\<close> (db/repo.py): what one label
  appends to \<^verbatim>\<open>band_ranges\<close>, if anything. A range \<open>(y_min, y_max)\<close> becomes the clause
  \<^verbatim>\<open>u.birth_year BETWEEN y_min AND y_max\<close>.
\<close>

definition preview_band_range :: "int \<Rightarrow> ustring \<Rightarrow> (int \<times> int) option" where
  "preview_band_range current_year b0 =
     (let b = py_strip b0 in
      if b = txt_band_10 then Some (current_year - 19, current_year - 10)
      else if b = txt_band_20 then Some (current_year - 29, current_year - 20)
      else if b = txt_band_30 then Some (current_year - 39, current_year - 30)
      else if b = txt_band_40 then Some (current_year - 49, current_year - 40)
      else if b = txt_band_50_plus \<or> b = txt_band_50 then Some (1900, current_year - 50)
      else None)"

definition preview_band_ranges :: "int \<Rightarrow> ustring list \<Rightarrow> (int \<times> int) list" where
  "preview_band_ranges current_year age_bands =
     List.map_filter (preview_band_range current_year) age_bands"




text \<open>
  The brief and its \<^verbatim>\<open>target_input\<close>. A field is \<open>None\<close> when the key is absent from the
  dict; \<open>or_empty\<close> is \<^verbatim>\<open>d.get(key, []) or []\<close>.
\<close>

record target_input =
  gender :: "ustring list option"
  age_group :: "ustring list option"
  skin_type :: "ustring list option"
  skin_concern :: "ustring list option"

record brief =
  goal :: "ustring option"
  brief_campaign_goal :: "ustring option"
  campaign_text :: "ustring option"
  target_input :: "target_input option"











text \<open>A list comprehension whose element expression may raise: the first exception wins.\<close>

fun map_result :: "('a \<Rightarrow> error + 'b) \<Rightarrow> 'a list \<Rightarrow> error + 'b list" where
  "map_result f [] = Inr []"
| "map_result f (x # xs) =
     (case f x of
        Inl e \<Rightarrow> Inl e
      | Inr y \<Rightarrow> (case map_result f xs of Inl e \<Rightarrow> Inl e | Inr ys \<Rightarrow> Inr (y # ys)))"












section \<open>The orchestrator's compliance stage\<close>

text \<open>
  The modules of the package \<^verbatim>\<open>crm_agent.agents\<close>: the files of the directory
  \<^verbatim>\<open>src/crm_agent/agents\<close>. The validator lives in \<^verbatim>\<open>compilance.py\<close>.
\<close>

definition agents_modules :: "ustring list" where
  "agents_modules =
     [asc ''brief_normalizer'', asc ''compilance'', asc ''execution_agent'',
      asc ''template_agent'']"

text \<open>
  \<^verbatim>\<open>try: from crm_agent.agents.<module> import f\<close>, \<^verbatim>\<open>except Exception: f = None\<close>
  (flow/workflow.py): a module that is not in the package raises \<^verbatim>\<open>ModuleNotFoundError\<close>,
  and the name is bound to \<^verbatim>\<open>None\<close>.
\<close>

definition import_from_agents :: "ustring \<Rightarrow> 'f \<Rightarrow> 'f option" where
  "import_from_agents module_name f =
     (if module_name \<in> set agents_modules then Some f else None)"

text \<open>The global \<^verbatim>\<open>validate_candidates\<close> of flow/workflow.py.\<close>

definition workflow_validate_candidates ::
    "(('n, 'a) candidate_scheme list \<Rightarrow> compliance_result list) option" where
  "workflow_validate_candidates = import_from_agents (asc ''compliance'') validate_candidates"

text \<open>
  The loop body of the inline check of \<^verbatim>\<open>node_compliance\<close>. Its result dict has no
  \<^verbatim>\<open>found_slots\<close> key, and its template id is \<^verbatim>\<open>c.get("template_id")\<close>.
\<close>

definition inline_check :: "('n, 'a) candidate_scheme \<Rightarrow> compliance_result" where
  "inline_check c =
     (let body = (case body_with_slots c of None \<Rightarrow> [] | Some b \<Rightarrow> b);
          hit = (py_in txt_100_effect body \<or> py_in txt_complete_cure body)
      in \<lparr> res_template_id = template_id c,
           res_status = (if hit then FAIL else PASS),
           res_reasons = (if hit then [Exaggeration] else []),
           found_slots = None \<rparr>)"

text \<open>
  The \<^verbatim>\<open>results\<close> list \<^verbatim>\<open>node_compliance\<close> puts into the COMPLIANCE handoff and into the
  state, for a given binding of the global.
\<close>

definition compliance_results ::
    "(('n, 'a) candidate_scheme list \<Rightarrow> compliance_result list) option \<Rightarrow>
     ('n, 'a) candidate_scheme list \<Rightarrow> compliance_result list" where
  "compliance_results validator cands =
     (case validator of
        None \<Rightarrow> map inline_check cands
      | Some validate \<Rightarrow> validate cands)"

definition node_compliance_results ::
    "('n, 'a) candidate_scheme list \<Rightarrow> compliance_result list" where
  "node_compliance_results cands = compliance_results workflow_validate_candidates cands"

text \<open>
  A candidate for channel SMS whose body has no placeholder at all, is 240 characters
  long and contains the third phrase of the validator's list (code points 47924, 51312,
  44148), which the inline check does not look for.
\<close>

definition long_candidate_without_slots :: "unit candidate" where
  "long_candidate_without_slots =
     \<lparr> template_id = Some (asc ''T009''), title = None,
       slot_schema = Some \<lparr> required = Some [asc ''customer_name'', asc ''product_name'',
         asc ''offer'', asc ''cta'', asc ''unsubscribe''], optional = Some [] \<rparr>,
       body_with_slots = Some ([47924, 51312, 44148] @ replicate 237 33),
       cand_channel = Some (asc ''SMS''), cand_tone = None,
       cand_notes = None, default_slot_values = None \<rparr>"

section \<open>The template agent\<close>

definition REQUIRED_SLOTS_BY_CHANNEL :: "(ustring \<times> ustring list) list" where
  "REQUIRED_SLOTS_BY_CHANNEL =
     [(asc ''PUSH'', [asc ''customer_name'', asc ''product_name'', asc ''offer'', asc ''cta'']),
      (asc ''SMS'', [asc ''customer_name'', asc ''product_name'', asc ''offer'', asc ''cta'',
                     asc ''unsubscribe'']),
      (asc ''KAKAO'', [asc ''customer_name'', asc ''product_name'', asc ''offer'', asc ''cta'']),
      (asc ''EMAIL'', [asc ''customer_name'', asc ''product_name'', asc ''offer'', asc ''cta'',
                       asc ''subject''])]"

definition OPTIONAL_SLOTS :: "ustring list" where
  "OPTIONAL_SLOTS =
     [asc ''coupon_code'', asc ''expiry_date'', asc ''deep_link'', asc ''brand_name'',
      asc ''support_contact'']"

text \<open>
  \<^verbatim>\<open>str.upper\<close> and \<^verbatim>\<open>str.lower\<close> on the letters of ASCII; other code points are left as
  they are (Python also maps the cased letters of other scripts).
\<close>

definition py_upper :: "ustring \<Rightarrow> ustring" where
  "py_upper s = map (\<lambda>c. if 97 \<le> c \<and> c \<le> 122 then c - 32 else c) s"

definition py_lower :: "ustring \<Rightarrow> ustring" where
  "py_lower s = map (\<lambda>c. if 65 \<le> c \<and> c \<le> 90 then c + 32 else c) s"

definition normalize_channel :: "ustring \<Rightarrow> ustring" where
  "normalize_channel channel =
     (let c = py_upper (py_strip channel)
      in if c \<in> set [asc ''PUSH'', asc ''SMS'', asc ''KAKAO'', asc ''EMAIL''] then c
         else asc ''PUSH'')"

text \<open>
  \<^verbatim>\<open>REQUIRED_SLOTS_BY_CHANNEL[channel]\<close>; the channel is a normalised one at both call
  sites, so the key is always there.
\<close>

definition required_slots_of :: "ustring \<Rightarrow> ustring list" where
  "required_slots_of channel =
     (case map_of REQUIRED_SLOTS_BY_CHANNEL channel of Some r \<Rightarrow> r | None \<Rightarrow> [])"

text \<open>
  What \<^verbatim>\<open>normalize_campaign_text\<close> returns: the keys \<^verbatim>\<open>_format_normalized_campaign_text\<close>
  reads, as the normaliser types them (texts and lists of texts).
\<close>

record normalized =
  normalized_text :: ustring
  norm_keywords :: "ustring list"
  category :: ustring
  occasion :: ustring
  finish_or_texture :: "ustring list"
  mood_or_style :: "ustring list"
  negative :: "ustring list"

definition lbl_summary :: ustring where
  "lbl_summary = asc ''- '' @ [50836, 50557] @ asc '': ''"

definition lbl_keywords :: ustring where
  "lbl_keywords = asc ''- '' @ [53412, 50892, 46300] @ asc '': ''"

definition lbl_category :: ustring where
  "lbl_category = asc ''- '' @ [52852, 53580, 44256, 47532] @ asc ''('' @ [52628, 51221] @ asc ''): ''"

definition lbl_occasion :: ustring where
  "lbl_occasion = asc ''- '' @ [49345, 54889] @ asc ''/'' @ [47785, 51201] @ asc ''('' @ [52628, 51221] @ asc ''): ''"

definition lbl_finish :: ustring where
  "lbl_finish = asc ''- '' @ [51228, 54805] @ asc ''/'' @ [54588, 45768, 49884] @ asc '': ''"

definition lbl_style :: ustring where
  "lbl_style = asc ''- '' @ [47924, 46300] @ asc ''/'' @ [49828, 53440, 51068] @ asc '': ''"

definition lbl_negative :: ustring where
  "lbl_negative = asc ''- '' @ [51228, 50808, 51312, 44148] @ asc '': ''"

definition lbl_raw :: ustring where
  "lbl_raw = asc ''- '' @ [50896, 47928] @ asc '': ''"

definition format_normalized_campaign_text ::
    "'m normalized_scheme \<Rightarrow> ustring \<Rightarrow> ustring" where
  "format_normalized_campaign_text n raw_campaign_text =
     (let kw = norm_keywords n;
          nt = py_strip (normalized_text n);
          cat = py_strip (category n);
          occ = py_strip (occasion n);
          finish = finish_or_texture n;
          style = mood_or_style n;
          neg = negative n;
          parts =
            (if nt \<noteq> [] then [lbl_summary @ nt] else [])
            @ (if kw \<noteq> [] then [lbl_keywords @ py_join (asc '', '') (take 12 kw)] else [])
            @ (if cat \<noteq> [] then [lbl_category @ cat] else [])
            @ (if occ \<noteq> [] then [lbl_occasion @ occ] else [])
            @ (if finish \<noteq> [] then [lbl_finish @ py_join (asc '', '') (take 8 finish)] else [])
            @ (if style \<noteq> [] then [lbl_style @ py_join (asc '', '') (take 8 style)] else [])
            @ (if neg \<noteq> [] then [lbl_negative @ py_join (asc '', '') (take 8 neg)] else [])
            @ [lbl_raw @ raw_campaign_text]
      in py_strip (py_join [10] parts))"

definition opener_innisfree_0 :: ustring where
  "opener_innisfree_0 = [44256, 44061, 45784] @ asc '', '' @ [50724, 45720, 51008] @ asc '' '' @ [49328, 46907, 54620] @ asc '' '' @ [45936, 51068, 47532] @ asc '' '' @ [47336, 54004, 51004, 47196] @ asc '' '' @ [52628, 52380, 46300, 47140, 50836] @ asc '' '' @ [127811]"

definition opener_innisfree_1 :: ustring where
  "opener_innisfree_1 = [44032, 48333, 44172] @ asc '' '' @ [47336, 54004, 50640] @ asc '' '' @ [45908, 54644, 48372, 44592] @ asc '' '' @ [51339, 51008] @ asc '' {product_name} '' @ [49548, 49885, 51060, 50640, 50836] @ asc '' '' @ [127811]"

definition cta_innisfree_0 :: ustring where
  "cta_innisfree_0 = [50545, 50640, 49436] @ asc '' '' @ [54869, 51064, 54616, 44592]"

definition cta_innisfree_1 :: ustring where
  "cta_innisfree_1 = [44032, 48333, 44172] @ asc '' '' @ [48372, 47084, 44032, 44592]"

definition opener_amoremall_0 :: ustring where
  "opener_amoremall_0 = [44256, 44061, 45784] @ asc '', '' @ [54924, 50896] @ asc '' '' @ [51204, 50857] @ asc '' '' @ [54812, 53469] @ asc '' '' @ [50504, 45236, 46300, 47140, 50836] @ asc ''.''"

definition opener_amoremall_1 :: ustring where
  "opener_amoremall_1 = [44256, 44061, 45784] @ asc '', '' @ [51648, 44552] @ asc '' '' @ [50545, 50640, 49436] @ asc '' '' @ [54869, 51064, 54644] @ asc '' '' @ [48372, 49464, 50836] @ asc ''.''"

definition cta_amoremall_0 :: ustring where
  "cta_amoremall_0 = [51648, 44552] @ asc '' '' @ [54869, 51064, 54616, 44592]"

definition cta_amoremall_1 :: ustring where
  "cta_amoremall_1 = [51088, 49464, 55176] @ asc '' '' @ [48372, 44592]"

text \<open>\<^verbatim>\<open>_fallback_openers_ctas_by_brand\<close>: two openers and two call-to-action labels.\<close>

definition fallback_openers_ctas_by_brand :: "ustring \<Rightarrow> ustring list \<times> ustring list" where
  "fallback_openers_ctas_by_brand tone_id0 =
     (let tone_id = py_lower (py_strip tone_id0)
      in if tone_id = asc ''innisfree''
         then ([opener_innisfree_0, opener_innisfree_1], [cta_innisfree_0, cta_innisfree_1])
         else ([opener_amoremall_0, opener_amoremall_1], [cta_amoremall_0, cta_amoremall_1]))"
definition txt_footer_sms :: ustring where
  "txt_footer_sms = [49688, 49888, 44144, 48512] @ asc '': {unsubscribe}''"

definition default_subject :: ustring where
  "default_subject = asc ''{campaign_goal} '' @ [50504, 45236] @ asc '' | {product_name} {offer}''"

definition txt_principle :: ustring where
  "txt_principle = asc ''Template agent must not decide product/offer. Keep as slots.''"

definition txt_title_t001 :: ustring where
  "txt_title_t001 = asc '' | '' @ [50836, 50557, 54805] @ asc ''(FALLBACK)''"

definition txt_title_t002 :: ustring where
  "txt_title_t002 = asc '' | '' @ [54812, 53469] @ asc ''/'' @ [47532, 47560, 51064, 46300] @ asc ''(FALLBACK)''"

definition txt_title_t003 :: ustring where
  "txt_title_t003 = asc '' | '' @ [44060, 51064, 54868] @ asc ''(FALLBACK)''"

definition txt_title_t004 :: ustring where
  "txt_title_t004 = asc '' | '' @ [52488, 44036, 45800] @ asc ''(FALLBACK)''"

definition txt_t001_line2 :: ustring where
  "txt_t001_line2 = [51060, 48264] @ asc '' '' @ [52896, 54168, 51064, 50640] @ asc '' '' @ [46385] @ asc '' '' @ [47582, 45716] @ asc '' {product_name} '' @ [50504, 45236, 46300, 47140, 50836] @ asc ''.'' @ [10]"

definition txt_t001_cta_mark :: ustring where
  "txt_t001_cta_mark = [128073] @ asc '' ''"

definition txt_t002_line2 :: ustring where
  "txt_t002_line2 = asc ''{product_name} '' @ [44288, 47144] @ asc '' '' @ [50504, 45236, 50696, 50836] @ asc ''.'' @ [10]"

definition txt_t002_line4 :: ustring where
  "txt_t002_line4 = [53216, 54256] @ asc '': {coupon_code} / '' @ [51333, 47308, 51068] @ asc '': {expiry_date}'' @ [10]"

definition txt_t002_cta_mark :: ustring where
  "txt_t002_cta_mark = [9989] @ asc '' ''"

definition txt_t003_line2 :: ustring where
  "txt_t003_line2 = asc ''{skin_concern_primary} '' @ [44256, 48124, 51012] @ asc '' '' @ [44256, 47140, 54644] @ asc '' {product_name}'' @ [51012] @ asc ''('' @ [47484] @ asc '') '' @ [51228, 50504, 46300, 47140, 50836] @ asc ''.'' @ [10]"

definition txt_t004_line1 :: ustring where
  "txt_t004_line1 = asc ''{customer_name}'' @ [45784] @ asc '', {product_name}'' @ [10]"

definition txt_title_candidate :: ustring where
  "txt_title_candidate = asc '' | '' @ [54980, 48372]"

definition txt_llm_empty :: ustring where
  "txt_llm_empty = asc ''LLM returned empty candidates''"

text \<open>
  The collaborators of the template agent: the tone guide of a brand (a file read,
  the empty text when there is none), the campaign-text normaliser, and the language
  model. \<open>call_openai\<close> stands for \<^verbatim>\<open>_call_openai(_build_prompt(...))\<close>: it gets the arguments
  of the prompt and returns the dict parsed from the answer, or raises; \<open>Inl r\<close> is an
  exception whose \<^verbatim>\<open>repr\<close> is \<open>r\<close>.
\<close>

record prompt_request =
  pr_channel :: ustring
  pr_tone_id :: ustring
  pr_tone_guide_md :: ustring
  pr_campaign_goal :: ustring
  pr_campaign_text_normalized :: ustring
  pr_rag_context :: ustring
  pr_required_slots :: "ustring list"
  pr_k :: int

record agent_env =
  load_tone_guide :: "ustring \<Rightarrow> ustring"
  normalize_campaign_text :: "ustring \<Rightarrow> normalized"
  call_openai :: "prompt_request \<Rightarrow> ustring + (ustring \<times> json) list"

text \<open>\<^verbatim>\<open>(brief or {}).get(key, "").strip()\<close>.\<close>

definition brief_text :: "ustring option \<Rightarrow> ustring" where
  "brief_text v = (case v of None \<Rightarrow> [] | Some s \<Rightarrow> py_strip s)"

text \<open>\<^verbatim>\<open>(tone or "amoremall").strip().lower()\<close>.\<close>

definition tone_id_of :: "ustring \<Rightarrow> ustring" where
  "tone_id_of tone = py_lower (py_strip (if tone = [] then asc ''amoremall'' else tone))"

text \<open>
  \<^verbatim>\<open>_fallback_candidates\<close>: four canned templates, of which the first
  \<^verbatim>\<open>max(1, min(k, 4))\<close> are returned. Each body is an f-string of five or six lines,
  stripped; the footer is empty unless the channel is SMS.
\<close>

definition fallback_candidates ::
    "agent_env \<Rightarrow> ustring \<Rightarrow> ustring \<Rightarrow> brief \<Rightarrow> ustring \<Rightarrow> int \<Rightarrow> normalized candidate list" where
  "fallback_candidates env channel0 tone b rag_context k =
     (let channel = normalize_channel channel0;
          req = required_slots_of channel;
          raw_campaign_text = brief_text (campaign_text b);
          goal_text = brief_text (goal b);
          evidence_hint = take 500 (py_strip rag_context);
          tone_id = tone_id_of tone;
          tone_guide = load_tone_guide env tone_id;
          norm = normalize_campaign_text env raw_campaign_text;
          normalized_prompt_text = format_normalized_campaign_text norm raw_campaign_text;
          (openers, ctas) = fallback_openers_ctas_by_brand tone_id;
          footer = (if channel = asc ''SMS'' then txt_footer_sms else []);
          subject_default = JStr (if channel = asc ''EMAIL'' then default_subject else []);
          notes = \<lparr> campaign_goal = goal_text,
                    campaign_text_hint = take 300 normalized_prompt_text,
                    rag_evidence_hint = evidence_hint,
                    brand_tone_id = tone_id,
                    brand_tone_guide_snippet = take 500 tone_guide,
                    principle = txt_principle,
                    provenance = Fallback,
                    campaign_text_normalized = norm,
                    llm_error = None,
                    missing_slots_fixed = None \<rparr>;
          candidates =
            [\<lparr> template_id = Some (asc ''T001''),
               title = Some (tone_id @ txt_title_t001),
               slot_schema = Some \<lparr> required = Some req, optional = Some OPTIONAL_SLOTS \<rparr>,
               body_with_slots = Some (py_strip
                 (openers ! 0 @ [10] @ txt_t001_line2 @ asc ''{offer}'' @ [10]
                  @ txt_t001_cta_mark @ ctas ! 0 @ asc '': {cta}'' @ [10] @ footer)),
               cand_channel = Some channel, cand_tone = Some tone_id, cand_notes = Some notes,
               default_slot_values = Some
                 [(asc ''cta'', JStr (asc ''{deep_link}'')), (asc ''subject'', subject_default)] \<rparr>,
             \<lparr> template_id = Some (asc ''T002''),
               title = Some (tone_id @ txt_title_t002),
               slot_schema = Some \<lparr> required = Some req, optional = Some OPTIONAL_SLOTS \<rparr>,
               body_with_slots = Some (py_strip
                 (openers ! 1 @ [10] @ txt_t002_line2 @ asc ''{offer}'' @ [10] @ txt_t002_line4
                  @ txt_t002_cta_mark @ ctas ! 1 @ asc '': {cta}'' @ [10] @ footer)),
               cand_channel = Some channel, cand_tone = Some tone_id, cand_notes = Some notes,
               default_slot_values = Some
                 [(asc ''coupon_code'', JStr (asc ''{coupon_code}'')),
                  (asc ''expiry_date'', JStr (asc ''{expiry_date}'')),
                  (asc ''cta'', JStr (asc ''{deep_link}'')), (asc ''subject'', subject_default)] \<rparr>,
             \<lparr> template_id = Some (asc ''T003''),
               title = Some (tone_id @ txt_title_t003),
               slot_schema = Some \<lparr> required = Some req,
                 optional = Some (OPTIONAL_SLOTS @ [asc ''skin_concern_primary'',
                   asc ''sensitivity_level'', asc ''persona'']) \<rparr>,
               body_with_slots = Some (py_strip
                 (openers ! 0 @ [10] @ txt_t003_line2 @ asc ''{offer}'' @ [10]
                  @ txt_t001_cta_mark @ asc ''{cta}'' @ [10] @ footer)),
               cand_channel = Some channel, cand_tone = Some tone_id, cand_notes = Some notes,
               default_slot_values = Some
                 [(asc ''cta'', JStr (asc ''{deep_link}'')), (asc ''subject'', subject_default)] \<rparr>,
             \<lparr> template_id = Some (asc ''T004''),
               title = Some (tone_id @ txt_title_t004),
               slot_schema = Some \<lparr> required = Some req, optional = Some OPTIONAL_SLOTS \<rparr>,
               body_with_slots = Some (py_strip
                 (txt_t004_line1 @ asc ''{offer}'' @ [10]
                  @ txt_t001_cta_mark @ asc ''{cta}'' @ [10] @ footer)),
               cand_channel = Some channel, cand_tone = Some tone_id, cand_notes = Some notes,
               default_slot_values = Some
                 [(asc ''cta'', JStr (asc ''{deep_link}'')), (asc ''subject'', subject_default)] \<rparr>]
      in take (nat (max 1 (min k 4))) candidates)"

text \<open>\<^verbatim>\<open>c.setdefault("notes", {})\<close>, then \<^verbatim>\<open>c["notes"]["llm_error"] = message\<close>.\<close>

definition tag_llm_error :: "ustring \<Rightarrow> normalized candidate \<Rightarrow> normalized candidate" where
  "tag_llm_error message c =
     c\<lparr>cand_notes := map_option (\<lambda>n. n\<lparr>llm_error := Some message\<rparr>) (cand_notes c)\<rparr>"

text \<open>\<^verbatim>\<open>f"T{idx:03d}"\<close>.\<close>

definition template_id_of_index :: "nat \<Rightarrow> ustring" where
  "template_id_of_index idx = asc ''T'' @ replicate (3 - length (dec idx)) 48 @ dec idx"

text \<open>\<^verbatim>\<open>d.setdefault(key, value)\<close> on a dict kept as an association list.\<close>

definition setdefault :: "ustring \<Rightarrow> json \<Rightarrow> (ustring \<times> json) list \<Rightarrow> (ustring \<times> json) list" where
  "setdefault key v d = (if map_of d key = None then d @ [(key, v)] else d)"

text \<open>
  \<^verbatim>\<open>(rc.get(key) or default).strip()\<close>: a value that is truthy and not a text has no
  \<^verbatim>\<open>strip\<close>.
\<close>

definition text_or :: "(ustring \<times> json) list \<Rightarrow> ustring \<Rightarrow> ustring \<Rightarrow> error + ustring" where
  "text_or rc key dflt =
     (case map_of rc key of
        None \<Rightarrow> Inr (py_strip dflt)
      | Some v \<Rightarrow>
          if truthy v then (case v of JStr s \<Rightarrow> Inr (py_strip s) | _ \<Rightarrow> Inl AttributeError)
          else Inr (py_strip dflt))"

text \<open>
  The body of the loop over the raw candidates of the model's answer: the repair
  appends the placeholders of the missing required slots, one per line.
\<close>

definition finalize_candidate ::
    "ustring \<Rightarrow> ustring \<Rightarrow> ustring list \<Rightarrow> normalized note_dict \<Rightarrow> nat \<times> json \<Rightarrow>
     error + normalized candidate" where
  "finalize_candidate channel tone_id req notes irc =
     (case snd irc of
        JDict rc \<Rightarrow>
          (case text_or rc (asc ''title'') (tone_id @ txt_title_candidate @ dec (fst irc)) of
             Inl e \<Rightarrow> Inl e
           | Inr title_text \<Rightarrow>
               (case text_or rc (asc ''body_with_slots'') [] of
                  Inl e \<Rightarrow> Inl e
                | Inr body0 \<Rightarrow>
                    (let missing = validate_candidate_body body0 req;
                         body = (if missing \<noteq> []
                                 then py_strip (body0 @ [10] @ py_join [10] (map placeholder missing))
                                 else body0);
                         dsv0 = (case map_of rc (asc ''default_slot_values'') of
                                   Some (JDict d) \<Rightarrow> d
                                 | _ \<Rightarrow> []);
                         dsv1 = setdefault (asc ''cta'') (JStr (asc ''{deep_link}'')) dsv0;
                         dsv = setdefault (asc ''subject'')
                                 (JStr (if channel = asc ''EMAIL'' then default_subject else [])) dsv1
                     in Inr \<lparr> template_id = Some (template_id_of_index (fst irc)),
                              title = Some title_text,
                              slot_schema =
                                Some \<lparr> required = Some req, optional = Some OPTIONAL_SLOTS \<rparr>,
                              body_with_slots = Some body,
                              cand_channel = Some channel, cand_tone = Some tone_id,
                              cand_notes = Some (notes\<lparr>missing_slots_fixed := Some missing\<rparr>),
                              default_slot_values = Some dsv \<rparr>)))
      | _ \<Rightarrow> Inl AttributeError)"

text \<open>
  \<^verbatim>\<open>generate_template_candidates\<close>. The fallback is taken when the model call raises
  (the candidates are tagged with the \<^verbatim>\<open>repr\<close> of the exception) and when the answer has
  no candidate list; an answer whose candidates are not dicts of texts raises.
\<close>

definition generate_template_candidates ::
    "agent_env \<Rightarrow> brief \<Rightarrow> ustring \<Rightarrow> ustring \<Rightarrow> ustring \<Rightarrow> int \<Rightarrow>
     error + normalized candidate list" where
  "generate_template_candidates env b channel0 tone rag_context0 k =
     (let channel = normalize_channel channel0;
          req = required_slots_of channel;
          tone_id = tone_id_of tone;
          tone_guide_md = load_tone_guide env tone_id;
          raw_campaign_text = brief_text (campaign_text b);
          goal_text = (if brief_text (goal b) \<noteq> [] then brief_text (goal b)
                       else brief_text (brief_campaign_goal b));
          rag_context = take 2500 (py_strip rag_context0);
          norm = normalize_campaign_text env raw_campaign_text;
          normalized_prompt_text = format_normalized_campaign_text norm raw_campaign_text;
          notes = \<lparr> campaign_goal = goal_text,
                    campaign_text_hint = take 300 normalized_prompt_text,
                    rag_evidence_hint = take 500 rag_context,
                    brand_tone_id = tone_id,
                    brand_tone_guide_snippet = take 500 tone_guide_md,
                    principle = txt_principle,
                    provenance = Llm,
                    campaign_text_normalized = norm,
                    llm_error = None,
                    missing_slots_fixed = None \<rparr>;
          fb = fallback_candidates env channel tone_id b rag_context k
      in case call_openai env
                \<lparr> pr_channel = channel, pr_tone_id = tone_id, pr_tone_guide_md = tone_guide_md,
                  pr_campaign_goal = goal_text,
                  pr_campaign_text_normalized = normalized_prompt_text,
                  pr_rag_context = rag_context, pr_required_slots = req, pr_k = max 1 k \<rparr> of
           Inl r \<Rightarrow> Inr (map (tag_llm_error r) fb)
         | Inr out \<Rightarrow>
             (case map_of out (asc ''candidates'') of
                Some (JList (rc # rcs)) \<Rightarrow>
                  map_result (finalize_candidate channel tone_id req notes)
                    (take (nat (max 1 k)) (zip [1 ..< Suc (length (rc # rcs))] (rc # rcs)))
              | _ \<Rightarrow> Inr (map (tag_llm_error txt_llm_empty) fb)))"
text \<open>
  The scenario of the specification: the brief with the goal text (code points below)
  and an empty campaign text, and collaborators whose model call raises because the
  API key is missing. For the empty campaign text the normaliser returns its empty
  structure without calling the model.
\<close>

definition txt_goal_year_end :: ustring where
  "txt_goal_year_end = [50672, 47568] @ asc '' '' @ [53216, 49496] @ asc '' '' @ [54532, 47196, 47784, 49496]"

definition scenario_brief :: brief where
  "scenario_brief =
     \<lparr> goal = Some txt_goal_year_end, brief_campaign_goal = None, campaign_text = Some [],
       target_input = None \<rparr>"

definition empty_normalized :: normalized where
  "empty_normalized =
     \<lparr> normalized_text = [], norm_keywords = [], category = [], occasion = [],
       finish_or_texture = [], mood_or_style = [], negative = [] \<rparr>"

definition repr_key_missing :: ustring where
  "repr_key_missing =
     asc ''RuntimeError('' @ [39] @ asc ''OPENAI_API_KEY is missing'' @ [39] @ asc '')''"

definition llm_down :: agent_env where
  "llm_down =
     \<lparr> load_tone_guide = (\<lambda>tone_id. []),
       normalize_campaign_text = (\<lambda>campaign_text. empty_normalized),
       call_openai = (\<lambda>request. Inl repr_key_missing) \<rparr>"

text \<open>
  Collaborators whose model answers with an empty candidate list, and ones whose model
  answers with one candidate that has the \<open>{offer}\<close> placeholder only.
\<close>

definition llm_empty_answer :: agent_env where
  "llm_empty_answer =
     \<lparr> load_tone_guide = (\<lambda>tone_id. []),
       normalize_campaign_text = (\<lambda>campaign_text. empty_normalized),
       call_openai = (\<lambda>request. Inr [(asc ''candidates'', JList [])]) \<rparr>"

definition llm_one_candidate :: agent_env where
  "llm_one_candidate =
     \<lparr> load_tone_guide = (\<lambda>tone_id. []),
       normalize_campaign_text = (\<lambda>campaign_text. empty_normalized),
       call_openai = (\<lambda>request. Inr [(asc ''candidates'',
         JList [JDict [(asc ''title'', JStr (asc ''Offer'')),
                       (asc ''body_with_slots'', JStr (asc ''Today only: {offer}''))]])]) \<rparr>"
text \<open>
  The four bodies \<^verbatim>\<open>_fallback_candidates\<close> builds for channel SMS and the brand
  \<^verbatim>\<open>amoremall\<close>, written out.
\<close>

definition sms_body_t001 :: ustring where
  "sms_body_t001 =
     [44256, 44061, 45784] @ asc '', '' @ [54924, 50896] @ asc '' '' @ [51204, 50857] @ asc '' '' @ [54812, 53469] @ asc '' '' @ [50504, 45236, 46300, 47140, 50836] @ asc ''.'' @ [10, 51060, 48264] @ asc '' '' @ [52896, 54168, 51064, 50640] @ asc '' '' @ [46385] @ asc '' '' @ [47582, 45716] @ asc '' {product_name} '' @ [50504, 45236, 46300, 47140, 50836] @ asc ''.'' @ [10] @ asc ''{offer}'' @ [10, 128073] @ asc '' '' @ [51648, 44552] @ asc '' '' @ [54869, 51064, 54616, 44592] @ asc '': {cta}'' @ [10, 49688, 49888, 44144, 48512] @ asc '': {unsubscribe}''"

definition sms_body_t002 :: ustring where
  "sms_body_t002 =
     [44256, 44061, 45784] @ asc '', '' @ [51648, 44552] @ asc '' '' @ [50545, 50640, 49436] @ asc '' '' @ [54869, 51064, 54644] @ asc '' '' @ [48372, 49464, 50836] @ asc ''.'' @ [10] @ asc ''{product_name} '' @ [44288, 47144] @ asc '' '' @ [50504, 45236, 50696, 50836] @ asc ''.'' @ [10] @ asc ''{offer}'' @ [10, 53216, 54256] @ asc '': {coupon_code} / '' @ [51333, 47308, 51068] @ asc '': {expiry_date}'' @ [10, 9989] @ asc '' '' @ [51088, 49464, 55176] @ asc '' '' @ [48372, 44592] @ asc '': {cta}'' @ [10, 49688, 49888, 44144, 48512] @ asc '': {unsubscribe}''"

definition sms_body_t003 :: ustring where
  "sms_body_t003 =
     [44256, 44061, 45784] @ asc '', '' @ [54924, 50896] @ asc '' '' @ [51204, 50857] @ asc '' '' @ [54812, 53469] @ asc '' '' @ [50504, 45236, 46300, 47140, 50836] @ asc ''.'' @ [10] @ asc ''{skin_concern_primary} '' @ [44256, 48124, 51012] @ asc '' '' @ [44256, 47140, 54644] @ asc '' {product_name}'' @ [51012] @ asc ''('' @ [47484] @ asc '') '' @ [51228, 50504, 46300, 47140, 50836] @ asc ''.'' @ [10] @ asc ''{offer}'' @ [10, 128073] @ asc '' {cta}'' @ [10, 49688, 49888, 44144, 48512] @ asc '': {unsubscribe}''"

definition sms_body_t004 :: ustring where
  "sms_body_t004 =
     asc ''{customer_name}'' @ [45784] @ asc '', {product_name}'' @ [10] @ asc ''{offer}'' @ [10, 128073] @ asc '' {cta}'' @ [10, 49688, 49888, 44144, 48512] @ asc '': {unsubscribe}''"

definition sms_fallback_batch :: "normalized candidate list" where
  "sms_fallback_batch =
     map (tag_llm_error repr_key_missing)
       (fallback_candidates llm_down (asc ''SMS'') (asc ''amoremall'') scenario_brief [] 4)"

(* THEOREMS *)

section \<open>Facts about the pattern\<close>

lemma not_slot_char_braces [simp]:
  "\<not> is_slot_char lbrace" "\<not> is_slot_char rbrace"
  by (simp_all add: is_slot_char_def lbrace_def rbrace_def)

lemma lbrace_neq_rbrace [simp]: "lbrace \<noteq> rbrace" "rbrace \<noteq> lbrace"
  by (simp_all add: lbrace_def rbrace_def)

lemma slot_match_placeholder:
  assumes "slot_name k"
  shows "slot_match (lbrace # k @ rbrace # post) = Some (k, post)"
proof -
  from assms have all: "\<forall>x\<in>set k. is_slot_char x" and ne: "k \<noteq> []"
    by (simp_all add: slot_name_def list_all_iff)
  from all have "takeWhile is_slot_char (k @ rbrace # post) = k"
    by (simp add: takeWhile_append2)
  moreover from all have "dropWhile is_slot_char (k @ rbrace # post) = rbrace # post"
    by (simp add: dropWhile_append2)
  ultimately show ?thesis
    using ne by (simp add: slot_match_def)
qed

lemma slot_match_SomeD:
  assumes "slot_match s = Some (k, rest)"
  shows "s = lbrace # k @ rbrace # rest \<and> slot_name k"
proof -
  from assms obtain cs where s: "s = lbrace # cs"
    and d: "dropWhile is_slot_char cs = rbrace # rest"
    and t: "takeWhile is_slot_char cs = k" and ne: "k \<noteq> []"
    by (auto simp: slot_match_def split: list.splits if_splits)
  have "cs = takeWhile is_slot_char cs @ dropWhile is_slot_char cs"
    by simp
  with d t have cs: "cs = k @ rbrace # rest"
    by simp
  have "list_all is_slot_char (takeWhile is_slot_char cs)"
    by (simp add: list_all_iff) (meson set_takeWhileD)
  with t ne have "slot_name k"
    by (simp add: slot_name_def)
  with s cs show ?thesis
    by simp
qed

text \<open>
  A match at the head of a text is still the match when a text that starts with an
  opening brace is appended, and a text without a match at its head gets none.
\<close>

lemma slot_match_append_lbrace:
  assumes "pre \<noteq> []"
  shows "slot_match (pre @ lbrace # x) =
     (case slot_match pre of
        Some (k, rest) \<Rightarrow> Some (k, rest @ lbrace # x)
      | None \<Rightarrow> None)"
proof -
  from assms obtain c cs where pre: "pre = c # cs"
    by (cases pre) auto
  show ?thesis
  proof (cases "\<forall>y\<in>set cs. is_slot_char y")
    case True
    then have d1: "dropWhile is_slot_char cs = []"
      by simp
    from True have d2: "dropWhile is_slot_char (cs @ lbrace # x) = lbrace # x"
      by (simp add: dropWhile_append2)
    show ?thesis
      unfolding pre slot_match_def by (simp add: d1 d2)
  next
    case False
    then have d: "dropWhile is_slot_char (cs @ lbrace # x) = dropWhile is_slot_char cs @ lbrace # x"
      and t: "takeWhile is_slot_char (cs @ lbrace # x) = takeWhile is_slot_char cs"
      by (auto simp: dropWhile_append1 takeWhile_append1)
    from False have "dropWhile is_slot_char cs \<noteq> []"
      by simp
    then obtain d ds where "dropWhile is_slot_char cs = d # ds"
      by (cases "dropWhile is_slot_char cs") auto
    then show ?thesis
      by (simp add: pre slot_match_def d t)
  qed
qed

lemma findall_append_placeholder:
  assumes "slot_name k"
  shows "findall (pre @ placeholder k @ post) = findall pre @ k # findall post"
proof (induction pre rule: findall.induct)
  case 1
  from slot_match_placeholder [OF assms, of post] show ?case
    by (simp add: placeholder_def)
next
  case (2 c cs)
  have m: "slot_match ((c # cs) @ lbrace # k @ rbrace # post) =
     (case slot_match (c # cs) of
        Some (n, rest) \<Rightarrow> Some (n, rest @ lbrace # k @ rbrace # post)
      | None \<Rightarrow> None)"
    by (rule slot_match_append_lbrace) simp
  show ?case
  proof (cases "slot_match (c # cs)")
    case None
    with m 2 show ?thesis
      by (simp add: placeholder_def)
  next
    case (Some a)
    obtain n rest where a: "a = (n, rest)"
      by (cases a)
    with Some m 2 show ?thesis
      by (simp add: placeholder_def)
  qed
qed

lemma render_append_placeholder:
  assumes "slot_name k"
  shows "render repr (pre @ placeholder k @ post) vs =
     render repr pre vs
       @ (case vs k of Some v \<Rightarrow> py_str repr v | None \<Rightarrow> placeholder k)
       @ render repr post vs"
proof (induction repr pre vs rule: render.induct)
  case (1 repr vs)
  from slot_match_placeholder [OF assms, of post] show ?case
    by (simp add: placeholder_def)
next
  case (2 repr c cs vs)
  have m: "slot_match ((c # cs) @ lbrace # k @ rbrace # post) =
     (case slot_match (c # cs) of
        Some (n, rest) \<Rightarrow> Some (n, rest @ lbrace # k @ rbrace # post)
      | None \<Rightarrow> None)"
    by (rule slot_match_append_lbrace) simp
  show ?case
  proof (cases "slot_match (c # cs)")
    case None
    with m 2 show ?thesis
      by (simp add: placeholder_def)
  next
    case (Some a)
    obtain n rest where a: "a = (n, rest)"
      by (cases a)
    with Some m 2 show ?thesis
      by (simp add: placeholder_def)
  qed
qed

lemma findall_memD:
  "k \<in> set (findall s) \<Longrightarrow> \<exists>pre post. s = pre @ placeholder k @ post \<and> slot_name k"
proof (induction s rule: findall.induct)
  case 1
  then show ?case by simp
next
  case (2 c cs)
  show ?case
  proof (cases "slot_match (c # cs)")
    case None
    with 2 have "k \<in> set (findall cs)"
      by simp
    with 2 None obtain pre post where "cs = pre @ placeholder k @ post" "slot_name k"
      by blast
    then have "c # cs = (c # pre) @ placeholder k @ post \<and> slot_name k"
      by simp
    then show ?thesis
      by blast
  next
    case (Some a)
    obtain n rest where a: "a = (n, rest)"
      by (cases a)
    from slot_match_SomeD Some a
    have s: "c # cs = lbrace # n @ rbrace # rest" and n: "slot_name n"
      by blast+
    from 2 Some a have "k = n \<or> k \<in> set (findall rest)"
      by simp
    then show ?thesis
    proof
      assume "k = n"
      with s n have "c # cs = [] @ placeholder k @ rest \<and> slot_name k"
        by (simp add: placeholder_def)
      then show ?thesis
        by blast
    next
      assume "k \<in> set (findall rest)"
      with 2 Some a obtain pre post where "rest = pre @ placeholder k @ post" "slot_name k"
        by blast
      with s have "c # cs = (lbrace # n @ rbrace # pre) @ placeholder k @ post \<and> slot_name k"
        by simp
      then show ?thesis
        by blast
    qed
  qed
qed

lemma render_absent_id:
  "\<forall>k\<in>set (findall s). vs k = None \<Longrightarrow> render repr s vs = s"
proof (induction repr s vs rule: render.induct)
  case (1 repr vs)
  then show ?case by simp
next
  case (2 repr c cs vs)
  show ?case
  proof (cases "slot_match (c # cs)")
    case None
    with 2 show ?thesis
      by simp
  next
    case (Some a)
    obtain n rest where a: "a = (n, rest)"
      by (cases a)
    from slot_match_SomeD Some a have s: "c # cs = lbrace # n @ rbrace # rest"
      by blast
    from 2 Some a have "vs n = None" "render repr rest vs = rest"
      by simp_all
    with Some a s show ?thesis
      by (simp add: placeholder_def)
  qed
qed

lemma findall_no_lbrace: "lbrace \<notin> set s \<Longrightarrow> findall s = []"
  by (induction s) (auto simp: slot_match_def)

lemma render_no_lbrace: "lbrace \<notin> set s \<Longrightarrow> render repr s vs = s"
  by (rule render_absent_id) (simp add: findall_no_lbrace)

section \<open>The execution agent's substitution\<close>

text \<open>
  C10. For every body text and every value mapping, \<open>render\<close> replaces each placeholder
  \<open>{name}\<close> whose name has an entry in the mapping with the string form of that value
  and leaves every placeholder whose name has no entry as it stands, braces included.
  The function is total: there is no error to raise. The first two conjuncts say it of
  any one occurrence of a placeholder, with the text before and after it rendered on its
  own; the third says that a body none of whose placeholders has an entry is returned
  unchanged.
\<close>

theorem render_replaces_present_keeps_absent:
  "slot_name k \<Longrightarrow>
     (vs k = Some v \<longrightarrow>
        render repr (pre @ placeholder k @ post) vs =
          render repr pre vs @ py_str repr v @ render repr post vs) \<and>
     (vs k = None \<longrightarrow>
        render repr (pre @ placeholder k @ post) vs =
          render repr pre vs @ placeholder k @ render repr post vs) \<and>
     ((\<forall>n\<in>set (findall body). vs n = None) \<longrightarrow> render repr body vs = body)"
  using render_append_placeholder [of k repr pre post vs] render_absent_id [of body vs repr]
  by auto

theorem render_replaces_present_keeps_absent_witness:
  "slot_name (asc ''name'') \<and>
   render (\<lambda>v. []) (asc ''Hi {name}, see {cta}!'') [asc ''name'' \<mapsto> JStr (asc ''Bo'')]
     = asc ''Hi Bo, see {cta}!'' \<and>
   render (\<lambda>v. []) (asc ''{a} and {b}'') Map.empty = asc ''{a} and {b}''"
proof -
  let ?vs = "[asc ''name'' \<mapsto> JStr (asc ''Bo'')]"
  have n: "slot_name (asc ''name'')"
    by (simp add: slot_name_def asc_def is_slot_char_def)
  have pre: "render (\<lambda>v. []) (asc ''Hi '') ?vs = asc ''Hi ''"
    by (rule render_no_lbrace) (simp add: asc_def lbrace_def)
  have post: "render (\<lambda>v. []) (asc '', see {cta}!'') ?vs = asc '', see {cta}!''"
    by (rule render_absent_id)
      (simp add: asc_def slot_match_def lbrace_def rbrace_def is_slot_char_def)
  have split: "asc ''Hi {name}, see {cta}!'' =
      asc ''Hi '' @ placeholder (asc ''name'') @ asc '', see {cta}!''"
    by (simp add: asc_def placeholder_def lbrace_def rbrace_def)
  have e: "\<forall>n\<in>set (findall (asc ''{a} and {b}'')). Map.empty n = (None :: json option)"
    by simp
  from render_replaces_present_keeps_absent
    [OF n, of ?vs "JStr (asc ''Bo'')" "\<lambda>v. []" "asc ''Hi ''" "asc '', see {cta}!''"
       "asc ''{a} and {b}''"]
  have "render (\<lambda>v. []) (asc ''Hi '' @ placeholder (asc ''name'') @ asc '', see {cta}!'') ?vs =
      render (\<lambda>v. []) (asc ''Hi '') ?vs @ py_str (\<lambda>v. []) (JStr (asc ''Bo''))
        @ render (\<lambda>v. []) (asc '', see {cta}!'') ?vs"
    by simp
  then have 1: "render (\<lambda>v. []) (asc ''Hi {name}, see {cta}!'') ?vs = asc ''Hi Bo, see {cta}!''"
    unfolding pre post split [symmetric] by (simp add: py_str_def asc_def)
  from render_replaces_present_keeps_absent
    [OF n, of Map.empty "JStr []" "\<lambda>v. []" "[]" "[]" "asc ''{a} and {b}''"] e
  have 2: "render (\<lambda>v. []) (asc ''{a} and {b}'') Map.empty = asc ''{a} and {b}''"
    by blast
  from n 1 2 show ?thesis
    by blast
qed

section \<open>The compliance validator\<close>

lemma py_in_iff: "py_in x s \<longleftrightarrow> (\<exists>pre post. s = pre @ x @ post)"
proof (induction s)
  case Nil
  then show ?case by auto
next
  case (Cons c cs)
  have "(\<exists>pre post. c # cs = pre @ x @ post) \<longleftrightarrow>
      prefix x (c # cs) \<or> (\<exists>pre post. cs = pre @ x @ post)"
  proof
    assume "\<exists>pre post. c # cs = pre @ x @ post"
    then obtain pre post where e: "c # cs = pre @ x @ post"
      by blast
    show "prefix x (c # cs) \<or> (\<exists>pre post. cs = pre @ x @ post)"
    proof (cases pre)
      case Nil
      with e show ?thesis by (auto simp: prefix_def)
    next
      case (Cons p ps)
      with e have "cs = ps @ x @ post" by simp
      then show ?thesis by blast
    qed
  next
    assume "prefix x (c # cs) \<or> (\<exists>pre post. cs = pre @ x @ post)"
    then show "\<exists>pre post. c # cs = pre @ x @ post"
    proof
      assume "prefix x (c # cs)"
      then obtain post where "c # cs = [] @ x @ post"
        by (auto simp: prefix_def)
      then show ?thesis by blast
    next
      assume "\<exists>pre post. cs = pre @ x @ post"
      then obtain pre post where "cs = pre @ x @ post" by blast
      then have "c # cs = (c # pre) @ x @ post" by simp
      then show ?thesis by blast
    qed
  qed
  with Cons show ?case by simp
qed

lemma set_extract_slots: "set (extract_slots text) = slot_placeholders_in_text text"
  by (simp add: extract_slots_def slot_placeholders_in_text_def)

lemma validate_one_status:
  "res_status (validate_one c) =
     (if cand_missing c \<noteq> [] \<or> banned_hit (cand_body c) then FAIL
      else if 220 < length (cand_body c) then WARN else PASS)"
  by (simp add: validate_one_def Let_def rule_required_def rule_banned_def rule_length_def)

lemma validate_one_reasons:
  "res_reasons (validate_one c) =
     (if cand_missing c \<noteq> [] then [MissingRequired (cand_missing c)] else [])
       @ (if banned_hit (cand_body c) then [Exaggeration] else [])
       @ (if 220 < length (cand_body c) then [TooLong] else [])"
  by (simp add: validate_one_def Let_def rule_required_def rule_banned_def rule_length_def)

text \<open>
  C6. The status of a candidate is monotonic across the rule sequence of
  \<open>validate_candidates\<close>: each of the three rules keeps a status that is already
  \<open>FAIL\<close> and only appends to the reasons; the length rule (body longer than 220
  characters) changes the status only to \<open>WARN\<close> and only when it is not \<open>FAIL\<close>; so the
  final status is \<open>FAIL\<close> as soon as the coverage rule or the phrase rule fired.
\<close>

theorem validate_status_monotonic:
  "(fst sr = FAIL \<longrightarrow>
      fst (rule_required missing sr) = FAIL \<and> fst (rule_banned body sr) = FAIL \<and>
      fst (rule_length body sr) = FAIL) \<and>
   prefix (snd sr) (snd (rule_required missing sr)) \<and>
   prefix (snd sr) (snd (rule_banned body sr)) \<and>
   prefix (snd sr) (snd (rule_length body sr)) \<and>
   (fst (rule_length body sr) \<noteq> fst sr \<longrightarrow>
      220 < length body \<and> fst sr \<noteq> FAIL \<and> fst (rule_length body sr) = WARN) \<and>
   (220 < length body \<and> fst sr \<noteq> FAIL \<longrightarrow> fst (rule_length body sr) = WARN) \<and>
   res_status (validate_one c) =
     (if cand_missing c \<noteq> [] \<or> banned_hit (cand_body c) then FAIL
      else if 220 < length (cand_body c) then WARN else PASS)"
  by (simp add: validate_one_status) (simp add: rule_required_def rule_banned_def rule_length_def)

theorem validate_status_monotonic_witness:
  "rule_length (replicate 221 32) (FAIL, [Exaggeration]) = (FAIL, [Exaggeration, TooLong]) \<and>
   fst (rule_length (replicate 221 32) (PASS, [])) = WARN \<and>
   fst (rule_required [asc ''cta''] (FAIL, [Exaggeration])) = FAIL \<and>
   fst (rule_banned (asc ''hello'') (FAIL, [TooLong])) = FAIL"
proof -
  let ?c = "\<lparr> template_id = Some (asc ''T001''), title = None, slot_schema = None,
      body_with_slots = Some (asc ''hello''), cand_channel = None, cand_tone = None,
      cand_notes = None :: unit note_dict option, default_slot_values = None \<rparr>"
  have len: "220 < length (replicate 221 (32::nat))"
    by simp
  from validate_status_monotonic
    [where sr = "(FAIL, [Exaggeration])" and missing = "[asc ''cta'']"
       and body = "asc ''hello''" and c = ?c]
  have 1: "fst (rule_required [asc ''cta''] (FAIL, [Exaggeration])) = FAIL"
    by simp
  from validate_status_monotonic
    [where sr = "(FAIL, [TooLong])" and missing = "[]" and body = "asc ''hello''" and c = ?c]
  have 2: "fst (rule_banned (asc ''hello'') (FAIL, [TooLong])) = FAIL"
    by simp
  from validate_status_monotonic
    [where sr = "(PASS, [])" and missing = "[]" and body = "replicate 221 32" and c = ?c] len
  have 3: "fst (rule_length (replicate 221 32) (PASS, [])) = WARN"
    by simp
  have 4: "rule_length (replicate 221 32) (FAIL, [Exaggeration])
      = (FAIL, [Exaggeration, TooLong])"
    by (simp add: rule_length_def)
  from 1 2 3 4 show ?thesis
    by blast
qed

lemma findall_mem_iff:
  "k \<in> set (findall s) \<longleftrightarrow> slot_name k \<and> (\<exists>pre post. s = pre @ placeholder k @ post)"
proof
  assume "k \<in> set (findall s)"
  then show "slot_name k \<and> (\<exists>pre post. s = pre @ placeholder k @ post)"
    using findall_memD by blast
next
  assume "slot_name k \<and> (\<exists>pre post. s = pre @ placeholder k @ post)"
  then obtain pre post where k: "slot_name k" and s: "s = pre @ placeholder k @ post"
    by blast
  from findall_append_placeholder [OF k, of pre post] show "k \<in> set (findall s)"
    unfolding s by simp
qed

lemma extract_slots_mem_iff:
  "k \<in> set (extract_slots s) \<longleftrightarrow>
     slot_name k \<and> (\<exists>pre post. s = pre @ placeholder k @ post)"
  by (simp add: extract_slots_def findall_mem_iff)

lemma cand_missing_eq:
  "cand_missing c =
     filter (\<lambda>s. \<not> (slot_name s \<and> (\<exists>pre post. cand_body c = pre @ placeholder s @ post)))
       (cand_required c)"
  unfolding cand_missing_def by (simp only: extract_slots_mem_iff)

lemma banned_hit_iff:
  "banned_hit body \<longleftrightarrow>
     (\<exists>p\<in>set [txt_100_effect, txt_complete_cure, txt_unconditionally].
        \<exists>pre post. body = pre @ p @ post)"
  by (simp add: banned_hit_def banned_phrases_def py_in_iff)

text \<open>
  C7. \<open>validate_candidates\<close> returns one result per candidate, in the order of the
  input. The found slots of a result are the placeholder names of the body (sorted,
  each once): a name is found exactly when it is a slot name and the body contains its
  placeholder. The missing slots are the required names, in schema order, whose
  placeholder the body does not contain. A candidate whose body lacks a required slot
  gets \<open>FAIL\<close>, and its first reason names exactly those missing slots, none of which is
  among the found slots; a body in which one of the three listed phrases occurs gets
  \<open>FAIL\<close> and the reason of that class. The status is \<open>FAIL\<close> in these two cases only.
\<close>

theorem validate_candidates_results:
  "length (validate_candidates cs) = length cs \<and>
   (\<forall>i<length cs. validate_candidates cs ! i = validate_one (cs ! i)) \<and>
   map res_template_id (validate_candidates cs) =
     map (\<lambda>c. Some (case template_id c of None \<Rightarrow> [] | Some t \<Rightarrow> t)) cs \<and>
   found_slots (validate_one c) = Some (extract_slots (cand_body c)) \<and>
   set (extract_slots (cand_body c)) = slot_placeholders_in_text (cand_body c) \<and>
   sorted (extract_slots (cand_body c)) \<and> distinct (extract_slots (cand_body c)) \<and>
   (cand_missing c \<noteq> [] \<longrightarrow>
      res_status (validate_one c) = FAIL \<and>
      MissingRequired (cand_missing c) \<in> set (res_reasons (validate_one c)) \<and>
      set (cand_missing c) \<subseteq> set (cand_required c) \<and>
      set (cand_missing c) \<inter> set (extract_slots (cand_body c)) = {}) \<and>
   (banned_hit (cand_body c) \<longrightarrow>
      res_status (validate_one c) = FAIL \<and>
      Exaggeration \<in> set (res_reasons (validate_one c))) \<and>
   (\<forall>s. s \<in> set (extract_slots (cand_body c)) \<longleftrightarrow>
      slot_name s \<and> (\<exists>pre post. cand_body c = pre @ placeholder s @ post)) \<and>
   cand_missing c =
     filter (\<lambda>s. \<not> (slot_name s \<and> (\<exists>pre post. cand_body c = pre @ placeholder s @ post)))
       (cand_required c) \<and>
   ((\<exists>s\<in>set (cand_required c).
       \<not> (slot_name s \<and> (\<exists>pre post. cand_body c = pre @ placeholder s @ post))) \<longrightarrow>
      res_status (validate_one c) = FAIL \<and>
      hd (res_reasons (validate_one c)) =
        MissingRequired
          (filter (\<lambda>s. \<not> (slot_name s \<and> (\<exists>pre post. cand_body c = pre @ placeholder s @ post)))
             (cand_required c))) \<and>
   ((\<exists>p\<in>set [txt_100_effect, txt_complete_cure, txt_unconditionally].
       \<exists>pre post. cand_body c = pre @ p @ post) \<longrightarrow>
      res_status (validate_one c) = FAIL \<and>
      Exaggeration \<in> set (res_reasons (validate_one c))) \<and>
   (res_status (validate_one c) = FAIL \<longleftrightarrow>
      (\<exists>s\<in>set (cand_required c).
         \<not> (slot_name s \<and> (\<exists>pre post. cand_body c = pre @ placeholder s @ post))) \<or>
      (\<exists>p\<in>set [txt_100_effect, txt_complete_cure, txt_unconditionally].
         \<exists>pre post. cand_body c = pre @ p @ post))"
proof -
  let ?absent = "\<lambda>s. \<not> (slot_name s \<and> (\<exists>pre post. cand_body c = pre @ placeholder s @ post))"
  let ?phrase = "\<exists>p\<in>set [txt_100_effect, txt_complete_cure, txt_unconditionally].
      \<exists>pre post. cand_body c = pre @ p @ post"
  have m: "cand_missing c = filter ?absent (cand_required c)"
    by (rule cand_missing_eq)
  have ne: "(\<exists>s\<in>set (cand_required c). ?absent s) \<longleftrightarrow> cand_missing c \<noteq> []"
    unfolding m by (simp only: filter_empty_conv) blast
  have b: "?phrase \<longleftrightarrow> banned_hit (cand_body c)"
    by (rule banned_hit_iff [symmetric])
  have c1: "length (validate_candidates cs) = length cs"
    by (simp add: validate_candidates_def)
  have c2: "\<forall>i<length cs. validate_candidates cs ! i = validate_one (cs ! i)"
    by (simp add: validate_candidates_def)
  have c3: "map res_template_id (validate_candidates cs) =
      map (\<lambda>c. Some (case template_id c of None \<Rightarrow> [] | Some t \<Rightarrow> t)) cs"
    by (simp add: validate_candidates_def validate_one_def Let_def)
  have c4: "found_slots (validate_one c) = Some (extract_slots (cand_body c))"
    by (simp add: validate_one_def Let_def)
  have c5: "set (extract_slots (cand_body c)) = slot_placeholders_in_text (cand_body c)"
    by (rule set_extract_slots)
  have c6: "sorted (extract_slots (cand_body c))"
    by (simp add: extract_slots_def)
  have c7: "distinct (extract_slots (cand_body c))"
    by (simp add: extract_slots_def)
  have sub: "set (cand_missing c) \<subseteq> set (cand_required c)"
    "set (cand_missing c) \<inter> set (extract_slots (cand_body c)) = {}"
    by (auto simp: cand_missing_def)
  have c8: "cand_missing c \<noteq> [] \<longrightarrow>
      res_status (validate_one c) = FAIL \<and>
      MissingRequired (cand_missing c) \<in> set (res_reasons (validate_one c)) \<and>
      set (cand_missing c) \<subseteq> set (cand_required c) \<and>
      set (cand_missing c) \<inter> set (extract_slots (cand_body c)) = {}"
    using sub by (simp add: validate_one_status validate_one_reasons)
  have c9: "banned_hit (cand_body c) \<longrightarrow>
      res_status (validate_one c) = FAIL \<and>
      Exaggeration \<in> set (res_reasons (validate_one c))"
    by (simp add: validate_one_status validate_one_reasons)
  have c10: "\<forall>s. s \<in> set (extract_slots (cand_body c)) \<longleftrightarrow>
      slot_name s \<and> (\<exists>pre post. cand_body c = pre @ placeholder s @ post)"
    by (simp only: extract_slots_mem_iff simp_thms)
  have c12: "(\<exists>s\<in>set (cand_required c). ?absent s) \<longrightarrow>
      res_status (validate_one c) = FAIL \<and>
      hd (res_reasons (validate_one c)) = MissingRequired (filter ?absent (cand_required c))"
    unfolding ne m [symmetric] by (simp add: validate_one_status validate_one_reasons)
  have c13: "?phrase \<longrightarrow>
      res_status (validate_one c) = FAIL \<and>
      Exaggeration \<in> set (res_reasons (validate_one c))"
    unfolding b by (rule c9)
  have c14: "res_status (validate_one c) = FAIL \<longleftrightarrow>
      (\<exists>s\<in>set (cand_required c). ?absent s) \<or> ?phrase"
    unfolding ne b by (simp add: validate_one_status)
  from c1 c2 c3 c4 c5 c6 c7 c8 c9 c10 m c12 c13 c14 show ?thesis
    by (intro conjI) assumption+
qed

theorem validate_candidates_results_witness:
  "cand_missing push_candidate_without_cta = [asc ''cta''] \<and>
   res_status (validate_one push_candidate_without_cta) = FAIL \<and>
   MissingRequired [asc ''cta''] \<in> set (res_reasons (validate_one push_candidate_without_cta)) \<and>
   found_slots (validate_one push_candidate_without_cta) =
     Some [asc ''customer_name'', asc ''offer'', asc ''product_name''] \<and>
   length (validate_candidates [push_candidate_without_cta, push_candidate_without_cta]) = 2 \<and>
   res_status (validate_one sms_candidate_without_cta_unsubscribe) = FAIL \<and>
   hd (res_reasons (validate_one sms_candidate_without_cta_unsubscribe)) =
     MissingRequired [asc ''cta'', asc ''unsubscribe''] \<and>
   res_status (validate_one candidate_with_cure_claim) = FAIL \<and>
   Exaggeration \<in> set (res_reasons (validate_one candidate_with_cure_claim))"
proof -
  have f: "findall (asc ''Hi {customer_name}: {product_name}, {offer}'') =
      [asc ''customer_name'', asc ''product_name'', asc ''offer'']"
    by (simp add: asc_def slot_match_def lbrace_def rbrace_def is_slot_char_def)
  have b: "cand_body push_candidate_without_cta = asc ''Hi {customer_name}: {product_name}, {offer}''"
    by (simp add: cand_body_def push_candidate_without_cta_def)
  have e: "extract_slots (cand_body push_candidate_without_cta) =
      [asc ''customer_name'', asc ''offer'', asc ''product_name'']"
    unfolding b extract_slots_def f by (simp add: asc_def)
  have m: "cand_missing push_candidate_without_cta = [asc ''cta'']"
    unfolding cand_missing_def e
    by (simp add: cand_required_def push_candidate_without_cta_def asc_def)
  have ne: "cand_missing push_candidate_without_cta \<noteq> []"
    unfolding m by simp
  from validate_candidates_results
    [of "[push_candidate_without_cta, push_candidate_without_cta]" push_candidate_without_cta] ne
  have "res_status (validate_one push_candidate_without_cta) = FAIL \<and>
      MissingRequired (cand_missing push_candidate_without_cta)
        \<in> set (res_reasons (validate_one push_candidate_without_cta)) \<and>
      found_slots (validate_one push_candidate_without_cta) =
        Some (extract_slots (cand_body push_candidate_without_cta)) \<and>
      length (validate_candidates [push_candidate_without_cta, push_candidate_without_cta]) =
        length [push_candidate_without_cta, push_candidate_without_cta]"
    by blast
  then have 1: "cand_missing push_candidate_without_cta = [asc ''cta''] \<and>
      res_status (validate_one push_candidate_without_cta) = FAIL \<and>
      MissingRequired [asc ''cta''] \<in> set (res_reasons (validate_one push_candidate_without_cta)) \<and>
      found_slots (validate_one push_candidate_without_cta) =
        Some [asc ''customer_name'', asc ''offer'', asc ''product_name''] \<and>
      length (validate_candidates [push_candidate_without_cta, push_candidate_without_cta]) = 2"
    unfolding m e by simp
  let ?s = sms_candidate_without_cta_unsubscribe
  have bs: "cand_body ?s = asc ''Hi {customer_name}: {product_name}, {offer}''"
    by (simp add: cand_body_def sms_candidate_without_cta_unsubscribe_def)
  have es: "extract_slots (cand_body ?s) =
      [asc ''customer_name'', asc ''offer'', asc ''product_name'']"
    unfolding bs extract_slots_def f by (simp add: asc_def)
  have ms: "cand_missing ?s = [asc ''cta'', asc ''unsubscribe'']"
    unfolding cand_missing_def es
    by (simp add: cand_required_def sms_candidate_without_cta_unsubscribe_def asc_def)
  have rs: "asc ''cta'' \<in> set (cand_required ?s)"
    by (simp add: cand_required_def sms_candidate_without_cta_unsubscribe_def)
  have "asc ''cta'' \<notin> set (extract_slots (cand_body ?s))"
    unfolding es by (simp add: asc_def)
  with validate_candidates_results [of "[]" ?s]
  have "\<not> (slot_name (asc ''cta'') \<and>
      (\<exists>pre post. cand_body ?s = pre @ placeholder (asc ''cta'') @ post))"
    by blast
  with rs have hs: "\<exists>s\<in>set (cand_required ?s).
      \<not> (slot_name s \<and> (\<exists>pre post. cand_body ?s = pre @ placeholder s @ post))"
    by blast
  from validate_candidates_results [of "[]" ?s] hs
  have 2: "res_status (validate_one ?s) = FAIL \<and>
      hd (res_reasons (validate_one ?s)) = MissingRequired (cand_missing ?s)"
    by metis
  let ?c = candidate_with_cure_claim
  have "cand_body ?c =
      [] @ txt_complete_cure @ asc '': {customer_name} {product_name} {offer} {cta}''"
    by (simp add: cand_body_def candidate_with_cure_claim_def txt_complete_cure_def)
  then have hc: "\<exists>p\<in>set [txt_100_effect, txt_complete_cure, txt_unconditionally].
      \<exists>pre post. cand_body ?c = pre @ p @ post"
    by (metis list.set_intros)
  from validate_candidates_results [of "[]" ?c] hc
  have 3: "res_status (validate_one ?c) = FAIL \<and>
      Exaggeration \<in> set (res_reasons (validate_one ?c))"
    by blast
  from 1 2 3 show ?thesis
    unfolding ms by blast
qed

section \<open>Age bands\<close>

lemma py_strip_id:
  assumes "s \<noteq> []" "\<not> is_space (hd s)" "\<not> is_space (last s)"
  shows "py_strip s = s"
proof -
  from assms have 1: "dropWhile is_space s = s"
    by (cases s) auto
  from assms have "rev s \<noteq> []" "\<not> is_space (hd (rev s))"
    by (simp_all add: hd_rev)
  then have "dropWhile is_space (rev s) = rev s"
    by (cases "rev s") auto
  with 1 show ?thesis
    by (simp add: py_strip_def)
qed

lemma digit_not_space: "is_digit c \<Longrightarrow> \<not> is_space c"
  by (auto simp: is_digit_def is_space_def)

lemma dec_digits: "list_all is_digit (dec n) \<and> dec n \<noteq> []"
proof (induction n rule: dec.induct)
  case (1 n)
  show ?case
  proof (cases "n < 10")
    case True
    then show ?thesis
      by (subst dec.simps, subst dec.simps) (simp add: is_digit_def)
  next
    case False
    have "n mod 10 < 10" by simp
    then have "is_digit (48 + n mod 10)"
      unfolding is_digit_def by linarith
    with False 1 show ?thesis
      by (subst dec.simps, subst dec.simps) simp
  qed
qed

lemma digits_value_snoc: "digits_value (ds @ [c]) = 10 * digits_value ds + (c - 48)"
  by (simp add: digits_value_def)

lemma digits_value_dec: "digits_value (dec n) = n"
proof (induction n rule: dec.induct)
  case (1 n)
  show ?case
  proof (cases "n < 10")
    case True
    then show ?thesis
      by (subst dec.simps) (simp add: digits_value_def)
  next
    case False
    with 1 have "digits_value (dec (n div 10)) = n div 10"
      by simp
    with False show ?thesis
      by (subst dec.simps) (simp add: digits_value_snoc)
  qed
qed

lemma py_int_digits:
  assumes "list_all is_digit d" "d \<noteq> []"
  shows "py_int d = Inr (int (digits_value d))"
proof -
  from assms have h: "is_digit (hd d)" and l: "is_digit (last d)"
    by (auto simp: list_all_iff)
  then have "py_strip d = d"
    using assms by (intro py_strip_id) (auto dest: digit_not_space)
  moreover from h have "hd d \<noteq> 45" "hd d \<noteq> 43"
    by (auto simp: is_digit_def)
  ultimately show ?thesis
    using assms by (simp add: py_int_def Let_def)
qed

lemma py_int_dec: "py_int (dec n) = Inr (int n)"
  using dec_digits [of n] by (simp add: py_int_digits digits_value_dec)

lemma remove_all_absent: "hd old \<notin> set s \<Longrightarrow> remove_all old s = s"
proof (induction s)
  case Nil
  then show ?case by simp
next
  case (Cons c cs)
  then have "\<not> (old \<noteq> [] \<and> prefix old (c # cs))"
    by (cases old) auto
  with Cons show ?case by auto
qed

lemma remove_all_suffix:
  assumes "hd old \<notin> set s" "old \<noteq> []"
  shows "remove_all old (s @ old) = s"
  using assms
proof (induction s)
  case Nil
  then obtain c cs where "old = c # cs"
    by (cases old) auto
  then show ?case by simp
next
  case (Cons c cs)
  then have "\<not> prefix old ((c # cs) @ old)"
    by (cases old) auto
  with Cons show ?case by simp
qed

lemma dec_no_dae: "45824 \<notin> set (dec n)"
  using dec_digits [of n] by (auto simp: list_all_iff is_digit_def)

lemma range_of_band:
  "age_group_to_birth_year_range y (dec b @ txt_dae) =
     Inr (Some (y - (int b + 9)), Some (y - int b))"
proof -
  have ns: "\<not> suffix txt_dae_plus (dec b @ txt_dae)"
  proof
    assume "suffix txt_dae_plus (dec b @ txt_dae)"
    then obtain zs where "dec b @ txt_dae = zs @ txt_dae_plus"
      by (auto simp: suffix_def)
    then have "last (dec b @ txt_dae) = last (zs @ txt_dae_plus)"
      by simp
    then show False
      by (simp add: txt_dae_def txt_dae_plus_def asc_def)
  qed
  have "remove_all txt_dae (dec b @ txt_dae) = dec b"
    by (rule remove_all_suffix) (simp_all add: txt_dae_def dec_no_dae)
  with ns show ?thesis
    by (simp add: age_group_to_birth_year_range_def py_int_dec Let_def)
qed

lemma range_of_open_band:
  "age_group_to_birth_year_range y (dec b @ txt_dae_plus) = Inr (None, Some (y - int b))"
proof -
  have "remove_all txt_dae_plus (dec b @ txt_dae_plus) = dec b"
    by (rule remove_all_suffix) (simp_all add: txt_dae_plus_def dec_no_dae)
  then show ?thesis
    by (simp add: age_group_to_birth_year_range_def py_int_dec Let_def suffix_def)
qed

lemma dec_inj: "dec a = dec b \<Longrightarrow> a = b"
  by (metis digits_value_dec)

lemma dec_small: "n < 10 \<Longrightarrow> dec n = [48 + n]"
  by (subst dec.simps) simp

lemma dec_two: "10 \<le> n \<Longrightarrow> n < 100 \<Longrightarrow> dec n = [48 + n div 10, 48 + n mod 10]"
  by (subst dec.simps) (simp add: dec_small)

lemma dec_literals:
  "dec 10 = asc ''10''" "dec 20 = asc ''20''" "dec 30 = asc ''30''" "dec 40 = asc ''40''"
  "dec 50 = asc ''50''"
  by (simp_all add: asc_def dec_two)

lemma py_strip_band: "py_strip (dec b @ txt_dae) = dec b @ txt_dae"
  "py_strip (dec b @ txt_dae_plus) = dec b @ txt_dae_plus"
proof -
  from dec_digits [of b] have ne: "dec b \<noteq> []" and "is_digit (hd (dec b))"
    by (auto simp: list_all_iff)
  then have h: "\<not> is_space (hd (dec b))"
    by (auto dest: digit_not_space)
  show "py_strip (dec b @ txt_dae) = dec b @ txt_dae"
  proof (rule py_strip_id)
    show "dec b @ txt_dae \<noteq> []" using ne by simp
    show "\<not> is_space (hd (dec b @ txt_dae))" using ne h by simp
    show "\<not> is_space (last (dec b @ txt_dae))"
      by (simp add: txt_dae_def is_space_def)
  qed
  show "py_strip (dec b @ txt_dae_plus) = dec b @ txt_dae_plus"
  proof (rule py_strip_id)
    show "dec b @ txt_dae_plus \<noteq> []" using ne by simp
    show "\<not> is_space (hd (dec b @ txt_dae_plus))" using ne h by simp
    show "\<not> is_space (last (dec b @ txt_dae_plus))"
      by (simp add: txt_dae_plus_def asc_def is_space_def)
  qed
qed

lemma band_neq_open_band: "dec b @ txt_dae_plus \<noteq> dec c @ txt_dae"
proof
  assume "dec b @ txt_dae_plus = dec c @ txt_dae"
  then have "last (dec b @ txt_dae_plus) = last (dec c @ txt_dae)"
    by simp
  then show False
    by (simp add: txt_dae_plus_def txt_dae_def asc_def)
qed

lemma txt_band_dec:
  "txt_band_10 = dec 10 @ txt_dae" "txt_band_20 = dec 20 @ txt_dae"
  "txt_band_30 = dec 30 @ txt_dae" "txt_band_40 = dec 40 @ txt_dae"
  "txt_band_50 = dec 50 @ txt_dae" "txt_band_50_plus = dec 50 @ txt_dae_plus"
  by (simp_all only: dec_literals txt_band_10_def txt_band_20_def txt_band_30_def
      txt_band_40_def txt_band_50_def txt_band_50_plus_def txt_dae_def txt_dae_plus_def)

lemma preview_range_of_band:
  "preview_band_range y (dec b @ txt_dae) =
     (if b \<in> {10, 20, 30, 40} then Some (y - (int b + 9), y - int b)
      else if b = 50 then Some (1900, y - 50)
      else None)"
proof -
  have e: "dec b @ txt_dae = dec c @ txt_dae \<longleftrightarrow> b = c" for c
    by (auto dest: dec_inj)
  have n: "dec b @ txt_dae \<noteq> dec 50 @ txt_dae_plus"
    using band_neq_open_band [of 50 b] by simp
  show ?thesis
    unfolding preview_band_range_def py_strip_band Let_def txt_band_dec
    using n by (simp only: e) auto
qed

lemma preview_range_of_open_band:
  "preview_band_range y (dec b @ txt_dae_plus) =
     (if b = 50 then Some (1900, y - 50) else None)"
proof -
  have e: "dec b @ txt_dae_plus = dec 50 @ txt_dae_plus \<longleftrightarrow> b = 50"
    by (auto dest: dec_inj)
  show ?thesis
    unfolding preview_band_range_def py_strip_band Let_def txt_band_dec
    by (simp only: band_neq_open_band e) auto
qed

text \<open>
  C8. The target-query builder maps every label \<open>dec B @ txt_dae\<close> (the decimal number
  \<open>B\<close> followed by the band suffix, code point 45824) to the closed birth-year interval
  from \<open>this_year - (B + 9)\<close> to \<open>this_year - B\<close>, and every label
  \<open>dec B @ txt_dae_plus\<close> (the same followed by a plus sign) to the interval with no
  lower bound and upper bound \<open>this_year - B\<close>. The audience-preview query of the
  repository has a table of its own: it gives the same closed interval for the bands
  10, 20, 30 and 40 only, the interval from 1900 to \<open>current_year - 50\<close> for both the
  band 50 and the open band 50, and no range at all for any other label.
\<close>

theorem age_band_birth_year_ranges:
  "age_group_to_birth_year_range y (dec b @ txt_dae) =
     Inr (Some (y - (int b + 9)), Some (y - int b)) \<and>
   age_group_to_birth_year_range y (dec b @ txt_dae_plus) = Inr (None, Some (y - int b)) \<and>
   preview_band_range y (dec b @ txt_dae) =
     (if b \<in> {10, 20, 30, 40} then Some (y - (int b + 9), y - int b)
      else if b = 50 then Some (1900, y - 50)
      else None) \<and>
   preview_band_range y (dec b @ txt_dae_plus) =
     (if b = 50 then Some (1900, y - 50) else None)"
  using range_of_band [of y b] range_of_open_band [of y b]
    preview_range_of_band [of y b] preview_range_of_open_band [of y b]
  by (simp only: simp_thms)

theorem age_band_birth_year_ranges_witness:
  "age_group_to_birth_year_range 2026 txt_band_20 = Inr (Some 1997, Some 2006) \<and>
   age_group_to_birth_year_range 2026 txt_band_50_plus = Inr (None, Some 1976) \<and>
   preview_band_range 2026 txt_band_20 = Some (1997, 2006)"
  using age_band_birth_year_ranges [of 2026 20] age_band_birth_year_ranges [of 2026 50]
  unfolding txt_band_dec by simp

text \<open>
  The two mappings differ: for the open band 50 the builder leaves the lower bound open and the
  preview query bounds it by 1900; for the band 50 the builder gives the ten-year interval
  and the preview query the interval from 1900; the band 60 has an interval in the builder
  and none in the preview query.
\<close>

theorem preview_mapping_differs:
  "age_group_to_birth_year_range 2026 txt_band_50_plus = Inr (None, Some 1976) \<and>
   preview_band_ranges 2026 [txt_band_50_plus] = [(1900, 1976)] \<and>
   age_group_to_birth_year_range 2026 txt_band_50 = Inr (Some 1967, Some 1976) \<and>
   preview_band_ranges 2026 [txt_band_50] = [(1900, 1976)] \<and>
   age_group_to_birth_year_range 2026 (asc ''60'' @ txt_dae) = Inr (Some 1957, Some 1966) \<and>
   preview_band_ranges 2026 [asc ''60'' @ txt_dae] = []"
proof -
  have d: "asc ''60'' = dec 60"
    by (simp add: asc_def dec_two)
  show ?thesis
    unfolding txt_band_dec d preview_band_ranges_def
    by (simp add: range_of_band range_of_open_band preview_range_of_band
        preview_range_of_open_band List.map_filter_simps)
qed

section \<open>The target-query builder\<close>














section \<open>The orchestrator's compliance stage\<close>

lemma compliance_module_missing: "asc ''compliance'' \<notin> set agents_modules"
  by (simp add: agents_modules_def asc_def)

lemma inline_check_status:
  "res_status (inline_check c) =
     (if (\<exists>pre post. cand_body c = pre @ txt_100_effect @ post) \<or>
         (\<exists>pre post. cand_body c = pre @ txt_complete_cure @ post)
      then FAIL else PASS)"
  by (simp add: inline_check_def Let_def py_in_iff cand_body_def)

lemma inline_check_reasons:
  "res_reasons (inline_check c) =
     (if res_status (inline_check c) = FAIL then [Exaggeration] else [])"
  by (simp add: inline_check_def Let_def)

text \<open>
  C3. The orchestrator imports its validator from \<^verbatim>\<open>crm_agent.agents.compliance\<close>; the
  package has no such module (the file is \<^verbatim>\<open>compilance.py\<close>), so the global is \<^verbatim>\<open>None\<close>
  and \<open>node_compliance\<close> runs its inline check on every candidate list, one result per
  candidate in order. The status of a candidate is \<open>FAIL\<close>, with the one reason of the
  exaggeration class, exactly when its body contains the first or the second phrase
  (the text for "100% effect" or for "complete cure"), and \<open>PASS\<close> with no reason
  otherwise; the slot schema of the candidate never enters the result.
\<close>

theorem node_compliance_runs_inline_check:
  "(workflow_validate_candidates ::
      (('n, 'a) candidate_scheme list \<Rightarrow> compliance_result list) option) = None \<and>
   node_compliance_results cs = map inline_check (cs :: ('n, 'a) candidate_scheme list) \<and>
   length (node_compliance_results cs) = length cs \<and>
   (\<forall>i<length cs. node_compliance_results cs ! i = inline_check (cs ! i)) \<and>
   (res_status (inline_check c) = FAIL \<longleftrightarrow>
      (\<exists>pre post. cand_body c = pre @ txt_100_effect @ post) \<or>
      (\<exists>pre post. cand_body c = pre @ txt_complete_cure @ post)) \<and>
   (res_status (inline_check c) = FAIL \<longrightarrow> res_reasons (inline_check c) = [Exaggeration]) \<and>
   (res_status (inline_check c) \<noteq> FAIL \<longrightarrow>
      res_status (inline_check c) = PASS \<and> res_reasons (inline_check c) = []) \<and>
   res_template_id (inline_check c) = template_id c \<and>
   found_slots (inline_check c) = None \<and>
   inline_check (c\<lparr>slot_schema := schema\<rparr>) = inline_check c"
proof -
  have n: "(workflow_validate_candidates ::
      (('n, 'a) candidate_scheme list \<Rightarrow> compliance_result list) option) = None"
    by (simp add: workflow_validate_candidates_def import_from_agents_def
        compliance_module_missing)
  then have r: "node_compliance_results cs = map inline_check cs"
    by (simp add: node_compliance_results_def compliance_results_def)
  have s: "res_status (inline_check c) = FAIL \<longleftrightarrow>
      (\<exists>pre post. cand_body c = pre @ txt_100_effect @ post) \<or>
      (\<exists>pre post. cand_body c = pre @ txt_complete_cure @ post)"
    by (simp add: inline_check_status)
  have p: "res_status (inline_check c) \<noteq> FAIL \<longrightarrow>
      res_status (inline_check c) = PASS \<and> res_reasons (inline_check c) = []"
    by (simp add: inline_check_def Let_def)
  have f: "res_status (inline_check c) = FAIL \<longrightarrow> res_reasons (inline_check c) = [Exaggeration]"
    by (simp add: inline_check_reasons)
  have t: "res_template_id (inline_check c) = template_id c"
    "found_slots (inline_check c) = None"
    "inline_check (c\<lparr>slot_schema := schema\<rparr>) = inline_check c"
    by (simp_all add: inline_check_def Let_def)
  have l: "length (node_compliance_results cs) = length cs"
    "\<forall>i<length cs. node_compliance_results cs ! i = inline_check (cs ! i)"
    unfolding r by simp_all
  from n r l s f p t show ?thesis
    by (intro conjI) assumption+
qed

theorem node_compliance_runs_inline_check_witness:
  "res_status (inline_check candidate_with_cure_claim) = FAIL \<and>
   res_reasons (inline_check candidate_with_cure_claim) = [Exaggeration] \<and>
   node_compliance_results [long_candidate_without_slots, candidate_with_cure_claim] =
     [inline_check long_candidate_without_slots, inline_check candidate_with_cure_claim] \<and>
   res_status (inline_check long_candidate_without_slots) = PASS \<and>
   res_reasons (inline_check long_candidate_without_slots) = [] \<and>
   length (cand_body long_candidate_without_slots) = 240 \<and>
   res_status (validate_one long_candidate_without_slots) = FAIL"
proof -
  let ?c = candidate_with_cure_claim
  let ?l = long_candidate_without_slots
  note t = node_compliance_runs_inline_check
  have "cand_body ?c =
      [] @ txt_complete_cure @ asc '': {customer_name} {product_name} {offer} {cta}''"
    by (simp add: cand_body_def candidate_with_cure_claim_def txt_complete_cure_def)
  then have hc: "\<exists>pre post. cand_body ?c = pre @ txt_complete_cure @ post"
    by blast
  from t [where c = ?c and cs = "[?l, ?c]" and schema = None] hc
  have 1: "res_status (inline_check ?c) = FAIL \<and> res_reasons (inline_check ?c) = [Exaggeration]"
    by blast
  from t [where c = ?c and cs = "[?l, ?c]" and schema = None]
  have "node_compliance_results [?l, ?c] = map inline_check [?l, ?c]"
    by blast
  then have 2: "node_compliance_results [?l, ?c] = [inline_check ?l, inline_check ?c]"
    by simp
  have b: "cand_body ?l = txt_unconditionally @ replicate 237 33"
    by (simp add: cand_body_def long_candidate_without_slots_def txt_unconditionally_def)
  have s: "set (cand_body ?l) = {47924, 51312, 44148, 33}"
    unfolding b by (auto simp: txt_unconditionally_def)
  have n1: "\<not> (\<exists>pre post. cand_body ?l = pre @ txt_100_effect @ post)"
  proof
    assume "\<exists>pre post. cand_body ?l = pre @ txt_100_effect @ post"
    then have "set txt_100_effect \<subseteq> set (cand_body ?l)"
      by auto
    then show False
      unfolding s by (simp add: txt_100_effect_def asc_def)
  qed
  have n2: "\<not> (\<exists>pre post. cand_body ?l = pre @ txt_complete_cure @ post)"
  proof
    assume "\<exists>pre post. cand_body ?l = pre @ txt_complete_cure @ post"
    then have "set txt_complete_cure \<subseteq> set (cand_body ?l)"
      by auto
    then show False
      unfolding s by (simp add: txt_complete_cure_def)
  qed
  from t [where c = ?l and cs = "[?l, ?c]" and schema = None] n1 n2
  have 3: "res_status (inline_check ?l) = PASS \<and> res_reasons (inline_check ?l) = []"
    by blast
  have 4: "length (cand_body ?l) = 240"
    unfolding b by (simp add: txt_unconditionally_def)
  have "cand_body ?l = [] @ txt_unconditionally @ replicate 237 33"
    unfolding b by simp
  then have "banned_hit (cand_body ?l)"
    unfolding banned_hit_iff by (metis list.set_intros)
  then have 5: "res_status (validate_one ?l) = FAIL"
    by (simp add: validate_one_status)
  from 1 2 3 4 5 show ?thesis
    by blast
qed

section \<open>The template agent\<close>

lemma normalize_channel_literals:
  "normalize_channel (asc ''SMS'') = asc ''SMS''"
  "normalize_channel (asc ''EMAIL'') = asc ''EMAIL''"
  by (simp_all add: normalize_channel_def py_upper_def py_strip_def is_space_def asc_def)

lemma tone_id_of_amoremall: "tone_id_of (asc ''amoremall'') = asc ''amoremall''"
  by (simp add: tone_id_of_def py_lower_def py_strip_def is_space_def asc_def)

lemma openers_ctas_amoremall:
  "fallback_openers_ctas_by_brand (asc ''amoremall'') =
     ([opener_amoremall_0, opener_amoremall_1], [cta_amoremall_0, cta_amoremall_1])"
  by (simp add: fallback_openers_ctas_by_brand_def py_lower_def py_strip_def is_space_def asc_def)

lemma required_slots_of_literals:
  "required_slots_of (asc ''SMS'') =
     [asc ''customer_name'', asc ''product_name'', asc ''offer'', asc ''cta'', asc ''unsubscribe'']"
  "required_slots_of (asc ''EMAIL'') =
     [asc ''customer_name'', asc ''product_name'', asc ''offer'', asc ''cta'', asc ''subject'']"
  by (simp_all add: required_slots_of_def REQUIRED_SLOTS_BY_CHANNEL_def asc_def)

lemma sms_fallback_bodies:
  "map cand_body
     (fallback_candidates llm_down (asc ''SMS'') (asc ''amoremall'') scenario_brief [] 4) =
   [sms_body_t001, sms_body_t002, sms_body_t003, sms_body_t004]"
  unfolding fallback_candidates_def Let_def normalize_channel_literals tone_id_of_amoremall
    openers_ctas_amoremall
  by (simp add: cand_body_def py_strip_def is_space_def
      sms_body_t001_def sms_body_t002_def sms_body_t003_def sms_body_t004_def
      opener_amoremall_0_def opener_amoremall_1_def cta_amoremall_0_def cta_amoremall_1_def
      txt_footer_sms_def txt_t001_line2_def txt_t001_cta_mark_def txt_t002_line2_def
      txt_t002_line4_def txt_t002_cta_mark_def txt_t003_line2_def txt_t004_line1_def asc_def)

lemma sms_fallback_required:
  "map cand_required
     (fallback_candidates llm_down (asc ''SMS'') (asc ''amoremall'') scenario_brief [] 4) =
   replicate 4 (required_slots_of (asc ''SMS''))"
  unfolding fallback_candidates_def Let_def normalize_channel_literals tone_id_of_amoremall
    openers_ctas_amoremall
  by (simp add: cand_required_def numeral_eq_Suc)

lemma sms_fallback_ids:
  "map template_id
     (fallback_candidates llm_down (asc ''SMS'') (asc ''amoremall'') scenario_brief [] 4) =
   [Some (asc ''T001''), Some (asc ''T002''), Some (asc ''T003''), Some (asc ''T004'')]"
  unfolding fallback_candidates_def Let_def normalize_channel_literals tone_id_of_amoremall
    openers_ctas_amoremall
  by simp

lemma tag_llm_error_fields [simp]:
  "cand_body (tag_llm_error m c) = cand_body c"
  "cand_required (tag_llm_error m c) = cand_required c"
  "template_id (tag_llm_error m c) = template_id c"
  by (simp_all add: tag_llm_error_def cand_body_def cand_required_def)

lemma sms_body_slots:
  "findall sms_body_t001 = [asc ''product_name'', asc ''offer'', asc ''cta'', asc ''unsubscribe'']"
  "findall sms_body_t002 = [asc ''product_name'', asc ''offer'', asc ''coupon_code'',
     asc ''expiry_date'', asc ''cta'', asc ''unsubscribe'']"
  "findall sms_body_t003 = [asc ''skin_concern_primary'', asc ''product_name'', asc ''offer'',
     asc ''cta'', asc ''unsubscribe'']"
  "findall sms_body_t004 = [asc ''customer_name'', asc ''product_name'', asc ''offer'',
     asc ''cta'', asc ''unsubscribe'']"
  by (simp_all add: sms_body_t001_def sms_body_t002_def sms_body_t003_def sms_body_t004_def
      asc_def slot_match_def lbrace_def rbrace_def is_slot_char_def)

lemma call_openai_llm_down [simp]: "call_openai llm_down request = Inl repr_key_missing"
  by (simp add: llm_down_def)

lemma generate_when_llm_down:
  "generate_template_candidates llm_down scenario_brief (asc ''SMS'') (asc ''amoremall'') [] 4 =
     Inr sms_fallback_batch"
  unfolding generate_template_candidates_def Let_def normalize_channel_literals
    tone_id_of_amoremall sms_fallback_batch_def
  by (simp add: py_strip_def)

lemma sms_batch_bodies:
  "map cand_body sms_fallback_batch =
     [sms_body_t001, sms_body_t002, sms_body_t003, sms_body_t004]"
  unfolding sms_fallback_batch_def map_map comp_def tag_llm_error_fields
  by (rule sms_fallback_bodies)

lemma sms_batch_required:
  "map cand_required sms_fallback_batch = replicate 4 (required_slots_of (asc ''SMS''))"
  unfolding sms_fallback_batch_def map_map comp_def tag_llm_error_fields
  by (rule sms_fallback_required)

lemma sms_batch_ids:
  "map template_id sms_fallback_batch =
     [Some (asc ''T001''), Some (asc ''T002''), Some (asc ''T003''), Some (asc ''T004'')]"
  unfolding sms_fallback_batch_def map_map comp_def tag_llm_error_fields
  by (rule sms_fallback_ids)

lemma sms_batch_tagged:
  "map (\<lambda>c. map_option llm_error (cand_notes c)) sms_fallback_batch =
     replicate 4 (Some (Some repr_key_missing))"
  unfolding sms_fallback_batch_def fallback_candidates_def Let_def normalize_channel_literals
    tone_id_of_amoremall openers_ctas_amoremall
  by (simp add: tag_llm_error_def numeral_eq_Suc)

lemma map_pair_zip: "map (\<lambda>x. (f x, g x)) xs = zip (map f xs) (map g xs)"
  by (induction xs) simp_all

lemma sms_batch_pairs:
  "map (\<lambda>c. (cand_body c, cand_required c)) sms_fallback_batch =
     [(sms_body_t001, required_slots_of (asc ''SMS'')),
      (sms_body_t002, required_slots_of (asc ''SMS'')),
      (sms_body_t003, required_slots_of (asc ''SMS'')),
      (sms_body_t004, required_slots_of (asc ''SMS''))]"
  unfolding map_pair_zip sms_batch_bodies sms_batch_required
  by (simp add: numeral_eq_Suc)

lemma sms_missing_per_body:
  "validate_candidate_body sms_body_t001 (required_slots_of (asc ''SMS'')) = [asc ''customer_name'']"
  "validate_candidate_body sms_body_t002 (required_slots_of (asc ''SMS'')) = [asc ''customer_name'']"
  "validate_candidate_body sms_body_t003 (required_slots_of (asc ''SMS'')) = [asc ''customer_name'']"
  "validate_candidate_body sms_body_t004 (required_slots_of (asc ''SMS'')) = []"
  unfolding validate_candidate_body_def slot_placeholders_in_text_def sms_body_slots
    required_slots_of_literals
  by (simp_all add: asc_def)

lemma sms_bodies_no_phrase:
  "\<not> py_in txt_100_effect sms_body_t001" "\<not> py_in txt_complete_cure sms_body_t001"
  "\<not> py_in txt_100_effect sms_body_t002" "\<not> py_in txt_complete_cure sms_body_t002"
  "\<not> py_in txt_100_effect sms_body_t003" "\<not> py_in txt_complete_cure sms_body_t003"
  "\<not> py_in txt_100_effect sms_body_t004" "\<not> py_in txt_complete_cure sms_body_t004"
  "\<not> py_in txt_unconditionally sms_body_t004"
  by (simp_all add: sms_body_t001_def sms_body_t002_def sms_body_t003_def sms_body_t004_def
      txt_100_effect_def txt_complete_cure_def txt_unconditionally_def asc_def)

lemma sms_body_t004_length: "length sms_body_t004 = 68"
  by (simp add: sms_body_t004_def asc_def)

lemma validate_one_by_pair:
  "res_status (validate_one c) =
     (if validate_candidate_body (cand_body c) (cand_required c) \<noteq> [] \<or> banned_hit (cand_body c)
      then FAIL else if 220 < length (cand_body c) then WARN else PASS)"
  "res_reasons (validate_one c) =
     (if validate_candidate_body (cand_body c) (cand_required c) \<noteq> []
      then [MissingRequired (validate_candidate_body (cand_body c) (cand_required c))] else [])
       @ (if banned_hit (cand_body c) then [Exaggeration] else [])
       @ (if 220 < length (cand_body c) then [TooLong] else [])"
proof -
  have "cand_missing c = validate_candidate_body (cand_body c) (cand_required c)"
    by (simp add: cand_missing_def validate_candidate_body_def set_extract_slots)
  then show "res_status (validate_one c) =
     (if validate_candidate_body (cand_body c) (cand_required c) \<noteq> [] \<or> banned_hit (cand_body c)
      then FAIL else if 220 < length (cand_body c) then WARN else PASS)"
    "res_reasons (validate_one c) =
     (if validate_candidate_body (cand_body c) (cand_required c) \<noteq> []
      then [MissingRequired (validate_candidate_body (cand_body c) (cand_required c))] else [])
       @ (if banned_hit (cand_body c) then [Exaggeration] else [])
       @ (if 220 < length (cand_body c) then [TooLong] else [])"
    by (simp_all add: validate_one_status validate_one_reasons)
qed

lemma py_in_no_first: "x \<noteq> [] \<Longrightarrow> hd x \<notin> set s \<Longrightarrow> \<not> py_in x s"
  using py_in_iff [of x s] by (cases x) auto

lemma map_eq_four:
  assumes "map f xs = [a, b, c, d]"
  obtains x1 x2 x3 x4 where "xs = [x1, x2, x3, x4]" "f x1 = a" "f x2 = b" "f x3 = c" "f x4 = d"
  using assms by (auto simp: map_eq_Cons_conv)

lemma sms_long:
  "\<not> 220 < length sms_body_t001" "\<not> 220 < length sms_body_t002"
  "\<not> 220 < length sms_body_t003"
  "\<not> banned_hit sms_body_t001" "\<not> banned_hit sms_body_t002" "\<not> banned_hit sms_body_t003"
  by (simp_all add: sms_body_t001_def sms_body_t002_def sms_body_t003_def asc_def
      banned_hit_def banned_phrases_def py_in_no_first
      txt_100_effect_def txt_complete_cure_def txt_unconditionally_def)

text \<open>
  C1. In the scenario of the specification (the brief with the year-end goal and an
  empty campaign text, channel SMS, brand \<^verbatim>\<open>amoremall\<close>, a model call that raises)
  \<open>generate_template_candidates\<close> returns the four canned templates, in order, each
  tagged with the \<^verbatim>\<open>repr\<close> of the exception, and each body has the \<open>{unsubscribe}\<close>
  placeholder. The first three bodies have no \<open>{customer_name}\<close> placeholder, although
  the slot is required for every channel: \<open>_validate_candidate_body\<close> reports it
  missing, and \<open>validate_candidates\<close> gives these three candidates \<open>FAIL\<close> with the
  missing-slot reason; only the fourth gets \<open>PASS\<close>. (The inline check the orchestrator
  runs instead passes all four.)
\<close>

theorem sms_fallback_batch_lacks_customer_name:
  "generate_template_candidates llm_down scenario_brief (asc ''SMS'') (asc ''amoremall'') [] 4 =
     Inr sms_fallback_batch \<and>
   map template_id sms_fallback_batch =
     [Some (asc ''T001''), Some (asc ''T002''), Some (asc ''T003''), Some (asc ''T004'')] \<and>
   map (\<lambda>c. map_option llm_error (cand_notes c)) sms_fallback_batch =
     replicate 4 (Some (Some repr_key_missing)) \<and>
   map cand_body sms_fallback_batch =
     [sms_body_t001, sms_body_t002, sms_body_t003, sms_body_t004] \<and>
   map (\<lambda>c. asc ''unsubscribe'' \<in> set (findall (cand_body c))) sms_fallback_batch =
     [True, True, True, True] \<and>
   map (\<lambda>c. validate_candidate_body (cand_body c) (cand_required c)) sms_fallback_batch =
     [[asc ''customer_name''], [asc ''customer_name''], [asc ''customer_name''], []] \<and>
   map res_status (validate_candidates sms_fallback_batch) = [FAIL, FAIL, FAIL, PASS] \<and>
   map res_reasons (validate_candidates sms_fallback_batch) =
     [[MissingRequired [asc ''customer_name'']], [MissingRequired [asc ''customer_name'']],
      [MissingRequired [asc ''customer_name'']], []] \<and>
   map res_status (node_compliance_results sms_fallback_batch) = [PASS, PASS, PASS, PASS]"
proof -
  let ?R = "required_slots_of (asc ''SMS'')"
  from sms_batch_pairs obtain c1 c2 c3 c4 where
    batch: "sms_fallback_batch = [c1, c2, c3, c4]" and
    p: "(cand_body c1, cand_required c1) = (sms_body_t001, ?R)"
      "(cand_body c2, cand_required c2) = (sms_body_t002, ?R)"
      "(cand_body c3, cand_required c3) = (sms_body_t003, ?R)"
      "(cand_body c4, cand_required c4) = (sms_body_t004, ?R)"
    by (rule map_eq_four)
  from p have q: "cand_body c1 = sms_body_t001" "cand_required c1 = ?R"
    "cand_body c2 = sms_body_t002" "cand_required c2 = ?R"
    "cand_body c3 = sms_body_t003" "cand_required c3 = ?R"
    "cand_body c4 = sms_body_t004" "cand_required c4 = ?R"
    by simp_all
  have u: "map (\<lambda>c. asc ''unsubscribe'' \<in> set (findall (cand_body c))) sms_fallback_batch =
      [True, True, True, True]"
    unfolding batch by (simp add: q sms_body_slots)
  have m: "map (\<lambda>c. validate_candidate_body (cand_body c) (cand_required c)) sms_fallback_batch =
      [[asc ''customer_name''], [asc ''customer_name''], [asc ''customer_name''], []]"
    unfolding batch by (simp add: q sms_missing_per_body)
  have bh: "\<not> banned_hit sms_body_t004"
    by (simp add: banned_hit_def banned_phrases_def sms_bodies_no_phrase)
  have s: "map res_status (validate_candidates sms_fallback_batch) = [FAIL, FAIL, FAIL, PASS]"
    unfolding batch validate_candidates_def
    by (simp add: validate_one_by_pair q sms_missing_per_body bh sms_body_t004_length)
  have r: "map res_reasons (validate_candidates sms_fallback_batch) =
     [[MissingRequired [asc ''customer_name'']], [MissingRequired [asc ''customer_name'']],
      [MissingRequired [asc ''customer_name'']], []]"
    unfolding batch validate_candidates_def
    by (simp add: validate_one_by_pair q sms_missing_per_body bh sms_body_t004_length
        sms_long)
  have n: "node_compliance_results cs = map inline_check cs"
    for cs :: "normalized candidate list"
    by (simp add: node_compliance_results_def compliance_results_def
        workflow_validate_candidates_def import_from_agents_def compliance_module_missing)
  have i: "map res_status (node_compliance_results sms_fallback_batch) = [PASS, PASS, PASS, PASS]"
    unfolding n batch
    by (simp add: inline_check_def Let_def q [unfolded cand_body_def] sms_bodies_no_phrase)
  from generate_when_llm_down sms_batch_ids sms_batch_tagged sms_batch_bodies u m s r i
  show ?thesis
    by (intro conjI) assumption+
qed

end
